theory Spec2Isabelle
  imports Main "HOL-Library.Word" "HOL-Library.Signed_Division"
begin

unbundle bit_operations_syntax

section \<open>Go values\<close>

text \<open>
  A Go \<^verbatim>\<open>string\<close> is a sequence of bytes: it is modelled by HOL's \<^typ>\<open>string\<close>, whose
  characters are bytes. \<^verbatim>\<open>[]byte(s)\<close> is \<open>bytes s\<close>. \<^verbatim>\<open>uuid.UUID\<close> is \<^verbatim>\<open>[16]byte\<close>, a
  128-bit word. \<^verbatim>\<open>time.Time\<close> and \<^verbatim>\<open>time.Duration\<close> count nanoseconds (an instant: since the
  Unix epoch). Go's \<^verbatim>\<open>int\<close> is the 64-bit signed integer of the platforms the Dockerfile
  builds for; \<open>sint\<close> reads it.
\<close>

type_synonym byte = "8 word"
type_synonym UUID = "128 word"
type_synonym Time = int
type_synonym Duration = int
type_synonym go_int = "64 word"

definition bytes :: "string \<Rightarrow> byte list" where
  "bytes s = map (\<lambda>c. word_of_nat (of_char c)) s"

definition string_of_bytes :: "byte list \<Rightarrow> string" where
  "string_of_bytes bs = map (\<lambda>b. char_of (unat b)) bs"

definition be_word :: "byte list \<Rightarrow> 'a::len word" where
  "be_word bs = foldl (\<lambda>acc b. push_bit 8 acc OR ucast b) 0 bs"

definition be_bytes :: "nat \<Rightarrow> 'a::len word \<Rightarrow> byte list" where
  "be_bytes n w = map (\<lambda>i. ucast (drop_bit (8 * (n - 1 - i)) w)) [0..<n]"

definition Second :: Duration where
  "Second = 1000000000"

definition Hour :: Duration where
  "Hour = 3600 * Second"

text \<open>\<^verbatim>\<open>t.Truncate(d)\<close> rounds \<open>t\<close> down to a multiple of \<open>d\<close>.\<close>

definition Truncate :: "Time \<Rightarrow> Duration \<Rightarrow> Time" where
  "Truncate t d = (if d \<le> 0 then t else t - t mod d)"

text \<open>
  Go's \<^verbatim>\<open>/\<close> on \<^verbatim>\<open>int\<close> truncates towards zero and panics on a zero divisor; \<open>go_div\<close> is the
  quotient where the divisor is not zero.
\<close>

definition go_div :: "go_int \<Rightarrow> go_int \<Rightarrow> go_int" where
  "go_div a b = word_of_int (sint a sdiv sint b)"

section \<open>The standard library's hashes\<close>

text \<open>
  \<^verbatim>\<open>crypto/sha256\<close>, \<^verbatim>\<open>crypto/sha512\<close> and \<^verbatim>\<open>crypto/hmac\<close> are not code of the repository; they
  are modelled from FIPS 180-4 and RFC 2104, which they implement. The round constants are
  the leading bits of the fractional parts of the cube roots of the first primes, the
  initial values those of the square roots.
\<close>

definition K256 :: "32 word list" where
  "K256 =
   [1116352408, 1899447441, 3049323471, 3921009573, 961987163, 1508970993,
    2453635748, 2870763221, 3624381080, 310598401, 607225278, 1426881987,
    1925078388, 2162078206, 2614888103, 3248222580, 3835390401, 4022224774,
    264347078, 604807628, 770255983, 1249150122, 1555081692, 1996064986,
    2554220882, 2821834349, 2952996808, 3210313671, 3336571891, 3584528711,
    113926993, 338241895, 666307205, 773529912, 1294757372, 1396182291,
    1695183700, 1986661051, 2177026350, 2456956037, 2730485921, 2820302411,
    3259730800, 3345764771, 3516065817, 3600352804, 4094571909, 275423344,
    430227734, 506948616, 659060556, 883997877, 958139571, 1322822218,
    1537002063, 1747873779, 1955562222, 2024104815, 2227730452, 2361852424,
    2428436474, 2756734187, 3204031479, 3329325298]"

definition H256 :: "32 word list" where
  "H256 =
   [1779033703, 3144134277, 1013904242, 2773480762,
    1359893119, 2600822924, 528734635, 1541459225]"

definition K512 :: "64 word list" where
  "K512 =
   [4794697086780616226, 8158064640168781261, 13096744586834688815,
    16840607885511220156, 4131703408338449720, 6480981068601479193,
    10538285296894168987, 12329834152419229976, 15566598209576043074,
    1334009975649890238, 2608012711638119052, 6128411473006802146,
    8268148722764581231, 9286055187155687089, 11230858885718282805,
    13951009754708518548, 16472876342353939154, 17275323862435702243,
    1135362057144423861, 2597628984639134821, 3308224258029322869,
    5365058923640841347, 6679025012923562964, 8573033837759648693,
    10970295158949994411, 12119686244451234320, 12683024718118986047,
    13788192230050041572, 14330467153632333762, 15395433587784984357,
    489312712824947311, 1452737877330783856, 2861767655752347644,
    3322285676063803686, 5560940570517711597, 5996557281743188959,
    7280758554555802590, 8532644243296465576, 9350256976987008742,
    10552545826968843579, 11727347734174303076, 12113106623233404929,
    14000437183269869457, 14369950271660146224, 15101387698204529176,
    15463397548674623760, 17586052441742319658, 1182934255886127544,
    1847814050463011016, 2177327727835720531, 2830643537854262169,
    3796741975233480872, 4115178125766777443, 5681478168544905931,
    6601373596472566643, 7507060721942968483, 8399075790359081724,
    8693463985226723168, 9568029438360202098, 10144078919501101548,
    10430055236837252648, 11840083180663258601, 13761210420658862357,
    14299343276471374635, 14566680578165727644, 15097957966210449927,
    16922976911328602910, 17689382322260857208, 500013540394364858,
    748580250866718886, 1242879168328830382, 1977374033974150939,
    2944078676154940804, 3659926193048069267, 4368137639120453308,
    4836135668995329356, 5532061633213252278, 6448918945643986474,
    6902733635092675308, 7801388544844847127]"

definition H512 :: "64 word list" where
  "H512 =
   [7640891576956012808, 13503953896175478587, 4354685564936845355,
    11912009170470909681, 5840696475078001361, 11170449401992604703,
    2270897969802886507, 6620516959819538809]"

definition H384 :: "64 word list" where
  "H384 =
   [14680500436340154072, 7105036623409894663, 10473403895298186519,
    1526699215303891257, 7436329637833083697, 10282925794625328401,
    15784041429090275239, 5167115440072839076]"

definition Ch :: "'a::len word \<Rightarrow> 'a word \<Rightarrow> 'a word \<Rightarrow> 'a word" where
  "Ch x y z = (x AND y) XOR (NOT x AND z)"

definition Maj :: "'a::len word \<Rightarrow> 'a word \<Rightarrow> 'a word \<Rightarrow> 'a word" where
  "Maj x y z = (x AND y) XOR (x AND z) XOR (y AND z)"

record 'w sha2 =
  Sigma0 :: "'w \<Rightarrow> 'w"
  Sigma1 :: "'w \<Rightarrow> 'w"
  sigma0 :: "'w \<Rightarrow> 'w"
  sigma1 :: "'w \<Rightarrow> 'w"
  K :: "'w list"
  H0 :: "'w list"

definition blocks :: "nat \<Rightarrow> 'b list \<Rightarrow> 'b list list" where
  "blocks n xs = map (\<lambda>i. take n (drop (n * i) xs)) [0..<length xs div n]"

fun schedule :: "'a::len word sha2 \<Rightarrow> nat \<Rightarrow> 'a word list \<Rightarrow> 'a word list" where
  "schedule P 0 w = w"
| "schedule P (Suc n) w =
     (let t = length w in
      schedule P n
        (w @ [sigma1 P (w ! (t - 2)) + w ! (t - 7) + sigma0 P (w ! (t - 15)) + w ! (t - 16)]))"

fun sha2_round :: "'a::len word sha2 \<Rightarrow> 'a word list \<Rightarrow> 'a word \<times> 'a word \<Rightarrow> 'a word list" where
  "sha2_round P [a, b, c, d, e, f, g, h] (k, w) =
     (let t1 = h + Sigma1 P e + Ch e f g + k + w;
          t2 = Sigma0 P a + Maj a b c
      in [t1 + t2, a, b, c, d + t1, e, f, g])"
| "sha2_round P v kw = v"

definition compress :: "'a::len word sha2 \<Rightarrow> 'a word list \<Rightarrow> byte list \<Rightarrow> 'a word list" where
  "compress P H blk =
     (let n = LENGTH('a) div 8;
          w = schedule P (length (K P) - 16) (map be_word (blocks n blk))
      in map2 (+) H (foldl (sha2_round P) H (zip (K P) w)))"

text \<open>
  Padding for a hash whose length field has \<open>n\<close> bytes (8 for SHA-256, 16 for SHA-512): the
  byte \<open>0x80\<close>, zeros up to a whole block of \<open>8 * n\<close> bytes, the length in bits.
\<close>

definition pad :: "nat \<Rightarrow> byte list \<Rightarrow> byte list" where
  "pad n m =
     m @ [0x80] @ replicate ((16 * n - 1 - (length m + n) mod (8 * n)) mod (8 * n)) 0
       @ be_bytes n (word_of_nat (8 * length m) :: 128 word)"

definition sha2 :: "'a::len word sha2 \<Rightarrow> byte list \<Rightarrow> byte list" where
  "sha2 P m =
     (let n = LENGTH('a) div 8
      in concat (map (be_bytes n) (foldl (compress P) (H0 P) (blocks (16 * n) (pad (2 * n) m)))))"

definition SHA256 :: "32 word sha2" where
  "SHA256 = \<lparr>
     Sigma0 = (\<lambda>x. word_rotr 2 x XOR word_rotr 13 x XOR word_rotr 22 x),
     Sigma1 = (\<lambda>x. word_rotr 6 x XOR word_rotr 11 x XOR word_rotr 25 x),
     sigma0 = (\<lambda>x. word_rotr 7 x XOR word_rotr 18 x XOR drop_bit 3 x),
     sigma1 = (\<lambda>x. word_rotr 17 x XOR word_rotr 19 x XOR drop_bit 10 x),
     K = K256,
     H0 = H256 \<rparr>"

definition SHA512 :: "64 word sha2" where
  "SHA512 = \<lparr>
     Sigma0 = (\<lambda>x. word_rotr 28 x XOR word_rotr 34 x XOR word_rotr 39 x),
     Sigma1 = (\<lambda>x. word_rotr 14 x XOR word_rotr 18 x XOR word_rotr 41 x),
     sigma0 = (\<lambda>x. word_rotr 1 x XOR word_rotr 8 x XOR drop_bit 7 x),
     sigma1 = (\<lambda>x. word_rotr 19 x XOR word_rotr 61 x XOR drop_bit 6 x),
     K = K512,
     H0 = H512 \<rparr>"

text \<open>\<^verbatim>\<open>sha256.Sum256\<close>, \<^verbatim>\<open>sha512.Sum384\<close> and \<^verbatim>\<open>sha512.Sum512\<close>.\<close>

definition Sum256 :: "byte list \<Rightarrow> byte list" where
  "Sum256 m = sha2 SHA256 m"

definition Sum512 :: "byte list \<Rightarrow> byte list" where
  "Sum512 m = sha2 SHA512 m"

definition Sum384 :: "byte list \<Rightarrow> byte list" where
  "Sum384 m = take 48 (sha2 (SHA512\<lparr>H0 := H384\<rparr>) m)"

text \<open>\<^verbatim>\<open>fmt.Sprintf("%x", b)\<close> of a byte array: two lower-case hexadecimal digits a byte.\<close>

definition hexdigit :: "nat \<Rightarrow> char" where
  "hexdigit n = ''0123456789abcdef'' ! n"

definition Sprintf_x :: "byte list \<Rightarrow> string" where
  "Sprintf_x bs = concat (map (\<lambda>b. [hexdigit (unat b div 16), hexdigit (unat b mod 16)]) bs)"

text \<open>\<^verbatim>\<open>hmac.New(h, key)\<close> over a hash \<open>H\<close> whose block has \<open>B\<close> bytes.\<close>

definition hmac :: "(byte list \<Rightarrow> byte list) \<Rightarrow> nat \<Rightarrow> byte list \<Rightarrow> byte list \<Rightarrow> byte list" where
  "hmac H B key m =
     (let k0 = (if B < length key then H key else key);
          k = k0 @ replicate (B - length k0) 0
      in H (map (\<lambda>b. b XOR 0x5c) k @ H (map (\<lambda>b. b XOR 0x36) k @ m)))"

section \<open>Errors\<close>

text \<open>
  A Go \<^verbatim>\<open>error\<close> is observed through its message (\<^verbatim>\<open>Error()\<close>) and the errors it wraps
  (\<^verbatim>\<open>errors.Is\<close>, \<^verbatim>\<open>errors.Unwrap\<close>). \<open>errorString\<close> is what \<^verbatim>\<open>errors.New\<close> and a
  \<^verbatim>\<open>fmt.Errorf\<close> without \<^verbatim>\<open>%w\<close> return, \<open>wrapError\<close> and \<open>wrapErrors\<close> what \<^verbatim>\<open>fmt.Errorf\<close>
  returns with one and with several \<^verbatim>\<open>%w\<close>; \<open>joinedError\<close> is the jwt library's list of
  validation errors. A run-time panic is the outcome \<open>runtimePanic\<close>.
\<close>

datatype error =
    errorString string
  | wrapError string error
  | wrapErrors string "error list"
  | joinedError "error list"
  | runtimePanic string

text \<open>\<^verbatim>\<open>strings.Join\<close>.\<close>

fun Join :: "string list \<Rightarrow> string \<Rightarrow> string" where
  "Join [] sep = ''''"
| "Join [x] sep = x"
| "Join (x # y # ys) sep = x @ sep @ Join (y # ys) sep"

fun Error :: "error \<Rightarrow> string" where
  "Error (errorString s) = s"
| "Error (wrapError s e) = s"
| "Error (wrapErrors s es) = s"
| "Error (joinedError es) = Join (map Error es) '', ''"
| "Error (runtimePanic s) = s"

text \<open>\<^verbatim>\<open>fmt.Errorf(prefix + "%w", err)\<close>.\<close>

definition Errorf_w :: "string \<Rightarrow> error \<Rightarrow> error" where
  "Errorf_w prefix err = wrapError (prefix @ Error err) err"

text \<open>\<^verbatim>\<open>strings.Contains\<close> and \<^verbatim>\<open>strings.TrimPrefix\<close>.\<close>

fun has_prefix :: "string \<Rightarrow> string \<Rightarrow> bool" where
  "has_prefix s [] = True"
| "has_prefix [] (p # ps) = False"
| "has_prefix (c # cs) (p # ps) = (c = p \<and> has_prefix cs ps)"

fun Contains :: "string \<Rightarrow> string \<Rightarrow> bool" where
  "Contains [] sub = (sub = [])"
| "Contains (c # cs) sub = (has_prefix (c # cs) sub \<or> Contains cs sub)"

definition TrimPrefix :: "string \<Rightarrow> string \<Rightarrow> string" where
  "TrimPrefix s prefix = (if has_prefix s prefix then drop (length prefix) s else s)"

section \<open>Entities and tables\<close>

text \<open>
  \<^verbatim>\<open>map[string]interface{}\<close> holds decoded JSON; the services never look inside. A nil map
  is \<open>None\<close>. A number is kept as its literal.
\<close>

datatype json =
    JNull
  | JBool bool
  | JNumber string
  | JString string
  | JArray "json list"
  | JObject "(string \<times> json) list"

type_synonym claims_map = "(string \<times> json) list option"

record User =
  ID :: UUID
  DomainID :: UUID
  RoleID :: UUID
  FirstName :: string
  LastName :: string
  Username :: string
  Email :: string
  PasswordHash :: string
  CreatedAt :: Time
  UpdatedAt :: Time

record Domain =
  DomainID :: UUID
  Name :: string
  Domain :: string

record Role =
  ID :: UUID
  DomainID :: UUID
  RoleName :: string
  RoleClaims :: claims_map
  CreatedAt :: Time
  UpdatedAt :: Time

text \<open>
  A row of the table \<^verbatim>\<open>roles\<close>: \<^verbatim>\<open>role_claims\<close> is a nullable JSONB column (\<open>None\<close> is SQL
  NULL). The rows of \<^verbatim>\<open>users\<close> and \<^verbatim>\<open>domains\<close> are read column by column into the entity,
  so a row is written as the entity it scans to.
\<close>

record role_row =
  row_id :: UUID
  row_domain_id :: UUID
  row_role_name :: string
  row_role_claims :: "json option"
  row_created_at :: Time
  row_updated_at :: Time

record DB =
  users :: "User list"
  roles :: "role_row list"
  domains :: "Domain list"

text \<open>
  The constraints of the migration files: primary keys and \<^verbatim>\<open>UNIQUE\<close> columns (\<open>keys_ok\<close>),
  foreign keys (\<^verbatim>\<open>REFERENCES ... ON DELETE CASCADE\<close>, \<open>references_ok\<close>).
\<close>

definition keys_ok :: "DB \<Rightarrow> bool" where
  "keys_ok db \<longleftrightarrow>
     distinct (map User.ID (users db)) \<and>
     distinct (map User.Username (users db)) \<and>
     distinct (map User.Email (users db)) \<and>
     distinct (map row_id (roles db)) \<and>
     distinct (map (\<lambda>r. (row_domain_id r, row_role_name r)) (roles db)) \<and>
     distinct (map Domain.DomainID (domains db)) \<and>
     distinct (map Domain.Domain (domains db))"

definition references_ok :: "DB \<Rightarrow> bool" where
  "references_ok db \<longleftrightarrow>
     list_all (\<lambda>u. User.DomainID u \<in> Domain.DomainID ` set (domains db)) (users db) \<and>
     list_all (\<lambda>u. User.RoleID u \<in> row_id ` set (roles db)) (users db) \<and>
     list_all (\<lambda>r. row_domain_id r \<in> Domain.DomainID ` set (domains db)) (roles db)"

definition schema_ok :: "DB \<Rightarrow> bool" where
  "schema_ok db \<longleftrightarrow> keys_ok db \<and> references_ok db"

section \<open>Repositories\<close>

text \<open>
  Each repository method issues one SQL statement; the tables are the state. The connection
  is taken to be up, so that a statement fails only as the schema or the data make it fail.
  \<^verbatim>\<open>QueryRow(...).Scan\<close> returns \<^verbatim>\<open>sql.ErrNoRows\<close> when no row matches.
\<close>

definition quoted :: "string \<Rightarrow> string" where
  "quoted s = [CHR 0x22] @ s @ [CHR 0x22]"

definition unique_violation :: "string \<Rightarrow> error" where
  "unique_violation constraint =
     errorString (''pq: duplicate key value violates unique constraint '' @ quoted constraint)"

definition foreign_key_violation :: "string \<Rightarrow> string \<Rightarrow> error" where
  "foreign_key_violation table constraint =
     errorString (''pq: insert or update on table '' @ quoted table
                  @ '' violates foreign key constraint '' @ quoted constraint)"

definition ErrNoRows :: error where
  "ErrNoRows = errorString ''sql: no rows in result set''"

definition zeroTime :: Time where
  "zeroTime = - 62135596800 * Second"

definition userRepository_GetByID :: "DB \<Rightarrow> UUID \<Rightarrow> error + User" where
  "userRepository_GetByID db uid =
     (case find (\<lambda>u. User.ID u = uid) (users db) of
        None \<Rightarrow> Inl ErrNoRows
      | Some user \<Rightarrow> Inr user)"

definition userRepository_GetByUsername :: "DB \<Rightarrow> string \<Rightarrow> error + User" where
  "userRepository_GetByUsername db username =
     (case find (\<lambda>u. User.Username u = username) (users db) of
        None \<Rightarrow> Inl ErrNoRows
      | Some user \<Rightarrow> Inr user)"

definition domainRepository_GetByID :: "DB \<Rightarrow> UUID \<Rightarrow> error + Domain" where
  "domainRepository_GetByID db did =
     (case find (\<lambda>d. Domain.DomainID d = did) (domains db) of
        None \<Rightarrow> Inl ErrNoRows
      | Some domain \<Rightarrow> Inr domain)"

text \<open>
  \<^verbatim>\<open>json.Unmarshal(claimsJSON, &role.RoleClaims)\<close> into a nil map: an object fills the map,
  \<^verbatim>\<open>null\<close> leaves it nil, no bytes at all (SQL NULL) and every other value are errors.
  \<^verbatim>\<open>json.Marshal\<close> of the map writes \<^verbatim>\<open>null\<close> for a nil map and an object otherwise.
\<close>

fun json_kind :: "json \<Rightarrow> string" where
  "json_kind JNull = ''null''"
| "json_kind (JBool b) = ''bool''"
| "json_kind (JNumber n) = ''number''"
| "json_kind (JString s) = ''string''"
| "json_kind (JArray xs) = ''array''"
| "json_kind (JObject kvs) = ''object''"

fun Unmarshal_map :: "json option \<Rightarrow> error + claims_map" where
  "Unmarshal_map None = Inl (errorString ''unexpected end of JSON input'')"
| "Unmarshal_map (Some JNull) = Inr None"
| "Unmarshal_map (Some (JObject kvs)) = Inr (Some kvs)"
| "Unmarshal_map (Some j) =
     Inl (errorString (''json: cannot unmarshal '' @ json_kind j
            @ '' into Go value of type map[string]interface {}''))"

fun Marshal_map :: "claims_map \<Rightarrow> json" where
  "Marshal_map None = JNull"
| "Marshal_map (Some kvs) = JObject kvs"

text \<open>
  What \<^verbatim>\<open>Create\<close> and \<^verbatim>\<open>Update\<close> write into \<^verbatim>\<open>role_claims\<close> is the JSON of a map: an object
  or \<^verbatim>\<open>null\<close>. \<open>roles_written\<close> says that every row of \<^verbatim>\<open>roles\<close> holds such a value.
\<close>

fun written_claims :: "json option \<Rightarrow> bool" where
  "written_claims (Some JNull) = True"
| "written_claims (Some (JObject kvs)) = True"
| "written_claims j = False"

definition roles_written :: "DB \<Rightarrow> bool" where
  "roles_written db \<longleftrightarrow> list_all (\<lambda>r. written_claims (row_role_claims r)) (roles db)"

text \<open>
  Reading a row of \<^verbatim>\<open>roles\<close> into a \<^verbatim>\<open>Role\<close> decodes the claims; \<open>scan_all\<close> is the loop
  over \<^verbatim>\<open>rows.Next()\<close>, which returns at the first row that fails.
\<close>

definition scan_role :: "role_row \<Rightarrow> error + Role" where
  "scan_role r =
     (case Unmarshal_map (row_role_claims r) of
        Inl err \<Rightarrow> Inl err
      | Inr claims \<Rightarrow>
          Inr \<lparr> Role.ID = row_id r, Role.DomainID = row_domain_id r,
                Role.RoleName = row_role_name r, Role.RoleClaims = claims,
                Role.CreatedAt = row_created_at r, Role.UpdatedAt = row_updated_at r \<rparr>)"

fun scan_all :: "('row \<Rightarrow> error + 'a) \<Rightarrow> 'row list \<Rightarrow> error + 'a list" where
  "scan_all scan [] = Inr []"
| "scan_all scan (r # rs) =
     (case scan r of
        Inl err \<Rightarrow> Inl err
      | Inr x \<Rightarrow> (case scan_all scan rs of Inl err \<Rightarrow> Inl err | Inr xs \<Rightarrow> Inr (x # xs)))"

definition roleRepository_GetByID :: "DB \<Rightarrow> UUID \<Rightarrow> error + Role" where
  "roleRepository_GetByID db rid =
     (case find (\<lambda>r. row_id r = rid) (roles db) of
        None \<Rightarrow> Inl ErrNoRows
      | Some r \<Rightarrow> scan_role r)"

text \<open>
  \<^verbatim>\<open>Create\<close> sets \<^verbatim>\<open>role.ID = uuid.New()\<close> (the fresh identifier is the argument \<open>newID\<close>)
  and inserts the row; \<open>now\<close> is the database's \<^verbatim>\<open>CURRENT_TIMESTAMP\<close>. The result is the
  error, the role as the method leaves it, and the tables.
\<close>

definition roleRepository_Create :: "DB \<Rightarrow> UUID \<Rightarrow> Time \<Rightarrow> Role \<Rightarrow> error option \<times> Role \<times> DB" where
  "roleRepository_Create db newID now role0 =
     (let role = role0\<lparr>Role.ID := newID\<rparr>;
          claimsJSON = Marshal_map (Role.RoleClaims role)
      in if Role.ID role \<in> row_id ` set (roles db) then
           (Some (unique_violation ''roles_pkey''), role, db)
         else if (Role.DomainID role, Role.RoleName role)
                   \<in> (\<lambda>r. (row_domain_id r, row_role_name r)) ` set (roles db) then
           (Some (unique_violation ''roles_domain_id_role_name_key''), role, db)
         else if Role.DomainID role \<notin> Domain.DomainID ` set (domains db) then
           (Some (foreign_key_violation ''roles'' ''roles_domain_id_fkey''), role, db)
         else
           (None, role,
            db\<lparr>roles := roles db @
               [\<lparr> row_id = Role.ID role, row_domain_id = Role.DomainID role,
                  row_role_name = Role.RoleName role, row_role_claims = Some claimsJSON,
                  row_created_at = now, row_updated_at = now \<rparr>]\<rparr>))"

text \<open>
  \<^verbatim>\<open>Update\<close> rewrites name, claims and \<^verbatim>\<open>updated_at\<close> of the row with the role's id; no
  matching row is not an error.
\<close>

definition roleRepository_Update :: "DB \<Rightarrow> Time \<Rightarrow> Role \<Rightarrow> error option \<times> DB" where
  "roleRepository_Update db now role =
     (let claimsJSON = Marshal_map (Role.RoleClaims role)
      in if \<exists>r \<in> set (roles db). \<exists>r' \<in> set (roles db).
              row_id r = Role.ID role \<and> row_id r' \<noteq> Role.ID role \<and>
              row_domain_id r' = row_domain_id r \<and> row_role_name r' = Role.RoleName role then
           (Some (unique_violation ''roles_domain_id_role_name_key''), db)
         else
           (None,
            db\<lparr>roles := map (\<lambda>r. if row_id r = Role.ID role
                                 then r\<lparr>row_role_name := Role.RoleName role,
                                        row_role_claims := Some claimsJSON,
                                        row_updated_at := now\<rparr>
                                 else r) (roles db)\<rparr>))"

text \<open>
  The three \<^verbatim>\<open>ListWithPagination\<close> methods (users, roles, domains) differ in their SQL text
  and in how a row is read. \<open>selected\<close> is the answer of the database to the \<^verbatim>\<open>WHERE\<close>
  clause, in \<^verbatim>\<open>ORDER BY\<close> order: \<^verbatim>\<open>COUNT(*)\<close> is its length, \<^verbatim>\<open>LIMIT\<close> and \<^verbatim>\<open>OFFSET\<close> cut
  it, and PostgreSQL refuses a negative \<^verbatim>\<open>LIMIT\<close> or \<^verbatim>\<open>OFFSET\<close>. \<open>page_offset\<close> is the first
  line of each method, the division its last computation.
\<close>

record 'a ListResult =
  Items :: "'a list"
  Total :: go_int
  Page :: go_int
  Limit :: go_int
  TotalPages :: go_int

definition page_offset :: "go_int \<Rightarrow> go_int \<Rightarrow> go_int" where
  "page_offset page limit = (page - 1) * limit"

definition ListWithPagination ::
    "('row \<Rightarrow> error + 'a) \<Rightarrow> 'row list \<Rightarrow> go_int \<Rightarrow> go_int \<Rightarrow> error + 'a ListResult" where
  "ListWithPagination scan selected page limit =
     (let offset = page_offset page limit;
          total = (word_of_nat (length selected) :: go_int)
      in if sint limit < 0 then
           Inl (errorString ''pq: LIMIT must not be negative'')
         else if sint offset < 0 then
           Inl (errorString ''pq: OFFSET must not be negative'')
         else
           (case scan_all scan (take (unat limit) (drop (unat offset) selected)) of
              Inl err \<Rightarrow> Inl err
            | Inr items \<Rightarrow>
                if limit = 0 then
                  Inl (runtimePanic ''runtime error: integer divide by zero'')
                else
                  (let totalPages = go_div (total + limit - 1) limit
                   in Inr \<lparr> Items = items, Total = total, Page = page, Limit = limit,
                            TotalPages = totalPages \<rparr>)))"

definition userRepository_ListWithPagination ::
    "User list \<Rightarrow> go_int \<Rightarrow> go_int \<Rightarrow> error + User ListResult" where
  "userRepository_ListWithPagination selected page limit =
     ListWithPagination Inr selected page limit"

definition roleRepository_ListWithPagination ::
    "role_row list \<Rightarrow> go_int \<Rightarrow> go_int \<Rightarrow> error + Role ListResult" where
  "roleRepository_ListWithPagination selected page limit =
     ListWithPagination scan_role selected page limit"

definition domainRepository_ListWithPagination ::
    "Domain list \<Rightarrow> go_int \<Rightarrow> go_int \<Rightarrow> error + Domain ListResult" where
  "domainRepository_ListWithPagination selected page limit =
     ListWithPagination Inr selected page limit"

section \<open>The jwt library\<close>

text \<open>
  \<^verbatim>\<open>github.com/golang-jwt/jwt/v5\<close> is not code of the repository. What the services use of it
  is modelled here from its documented behaviour (RFC 7519, RFC 7515): the signing methods
  it registers, \<^verbatim>\<open>NewWithClaims\<close>, \<^verbatim>\<open>SignedString\<close>, \<^verbatim>\<open>ParseWithClaims\<close> and the default
  validator (no leeway, \<^verbatim>\<open>exp\<close> and \<^verbatim>\<open>nbf\<close> optional, \<^verbatim>\<open>iat\<close> not checked).
\<close>

subsection \<open>Encoding\<close>

text \<open>\<^verbatim>\<open>base64.RawURLEncoding.EncodeToString\<close>.\<close>

definition b64digit :: "nat \<Rightarrow> char" where
  "b64digit n = ''ABCDEFGHIJKLMNOPQRSTUVWXYZabcdefghijklmnopqrstuvwxyz0123456789-_'' ! n"

fun EncodeSegment :: "nat list \<Rightarrow> string" where
  "EncodeSegment [] = []"
| "EncodeSegment [a] = [b64digit (a div 4), b64digit (a mod 4 * 16)]"
| "EncodeSegment [a, b] =
     [b64digit (a div 4), b64digit (a mod 4 * 16 + b div 16), b64digit (b mod 16 * 4)]"
| "EncodeSegment (a # b # c # rest) =
     [b64digit (a div 4), b64digit (a mod 4 * 16 + b div 16),
      b64digit (b mod 16 * 4 + c div 64), b64digit (c mod 64)] @ EncodeSegment rest"

text \<open>
  \<^verbatim>\<open>encoding/json\<close> writes a string between quotes, escaping quotes, backslashes, control
  characters, the HTML characters \<^verbatim>\<open><\<close>, \<^verbatim>\<open>>\<close>, \<^verbatim>\<open>&\<close>, the line separators U+2028 and
  U+2029, and replacing each byte that is not part of a UTF-8 sequence by U+FFFD.
  \<open>utf8_size\<close> is the length of the UTF-8 sequence a byte list starts with, 0 when it starts
  with none.
\<close>

definition cont :: "nat \<Rightarrow> bool" where
  "cont b \<longleftrightarrow> 0x80 \<le> b \<and> b \<le> 0xBF"

fun utf8_size :: "nat list \<Rightarrow> nat" where
  "utf8_size (b0 # b1 # rest) =
     (if 0xC2 \<le> b0 \<and> b0 \<le> 0xDF then (if cont b1 then 2 else 0)
      else if 0xE0 \<le> b0 \<and> b0 \<le> 0xEF then
        (case rest of
           b2 # _ \<Rightarrow>
             if cont b2 \<and> (if b0 = 0xE0 then 0xA0 \<le> b1 \<and> b1 \<le> 0xBF
                           else if b0 = 0xED then 0x80 \<le> b1 \<and> b1 \<le> 0x9F else cont b1)
             then 3 else 0
         | [] \<Rightarrow> 0)
      else if 0xF0 \<le> b0 \<and> b0 \<le> 0xF4 then
        (case rest of
           b2 # b3 # _ \<Rightarrow>
             if cont b2 \<and> cont b3 \<and>
                (if b0 = 0xF0 then 0x90 \<le> b1 \<and> b1 \<le> 0xBF
                 else if b0 = 0xF4 then 0x80 \<le> b1 \<and> b1 \<le> 0x8F else cont b1)
             then 4 else 0
         | _ \<Rightarrow> 0)
      else 0)"
| "utf8_size bs = 0"

definition u00 :: "nat \<Rightarrow> string" where
  "u00 b = [CHR 0x5C] @ ''u00'' @ [hexdigit (b div 16), hexdigit (b mod 16)]"

fun json_escape :: "nat list \<Rightarrow> string" where
  "json_escape [] = []"
| "json_escape (b # bs) =
     (if b < 0x80 then
        (if b = 0x22 \<or> b = 0x5C then [CHR 0x5C, char_of b]
         else if b = 0x0A then [CHR 0x5C, CHR ''n'']
         else if b = 0x0D then [CHR 0x5C, CHR ''r'']
         else if b = 0x09 then [CHR 0x5C, CHR ''t'']
         else if b < 0x20 \<or> b = 0x3C \<or> b = 0x3E \<or> b = 0x26 then u00 b
         else [char_of b]) @ json_escape bs
      else if utf8_size (b # bs) = 0 then
        [CHR 0x5C] @ ''ufffd'' @ json_escape bs
      else if b = 0xE2 \<and> take 2 bs = [0x80, 0xA8] then
        [CHR 0x5C] @ ''u2028'' @ json_escape (drop 2 bs)
      else if b = 0xE2 \<and> take 2 bs = [0x80, 0xA9] then
        [CHR 0x5C] @ ''u2029'' @ json_escape (drop 2 bs)
      else
        map char_of (b # take (utf8_size (b # bs) - 1) bs)
          @ json_escape (drop (utf8_size (b # bs) - 1) bs))"

definition json_string :: "string \<Rightarrow> string" where
  "json_string s = quoted (json_escape (map of_char s))"

text \<open>\<^verbatim>\<open>json.Marshal\<close> of a decoded JSON value (a map's keys are kept in their order).\<close>

fun Marshal :: "json \<Rightarrow> string"
  and Marshal_elems :: "json list \<Rightarrow> string"
  and Marshal_members :: "(string \<times> json) list \<Rightarrow> string" where
  "Marshal JNull = ''null''"
| "Marshal (JBool b) = (if b then ''true'' else ''false'')"
| "Marshal (JNumber n) = n"
| "Marshal (JString s) = json_string s"
| "Marshal (JArray xs) = ''['' @ Marshal_elems xs @ '']''"
| "Marshal (JObject kvs) = ''{'' @ Marshal_members kvs @ ''}''"
| "Marshal_elems [] = []"
| "Marshal_elems [x] = Marshal x"
| "Marshal_elems (x # y # ys) = Marshal x @ '','' @ Marshal_elems (y # ys)"
| "Marshal_members [] = []"
| "Marshal_members [(k, v)] = json_string k @ '':'' @ Marshal v"
| "Marshal_members ((k, v) # kv # kvs) =
     json_string k @ '':'' @ Marshal v @ '','' @ Marshal_members (kv # kvs)"

text \<open>\<^verbatim>\<open>strconv.FormatInt(n, 10)\<close> and \<^verbatim>\<open>uuid.UUID.String()\<close>.\<close>

function digits10 :: "int \<Rightarrow> string" where
  "digits10 n =
     (if n < 10 then [hexdigit (nat n)] else digits10 (n div 10) @ [hexdigit (nat (n mod 10))])"
  by pat_completeness auto
termination
  by (relation "measure nat") auto

definition FormatInt :: "int \<Rightarrow> string" where
  "FormatInt n = (if n < 0 then ''-'' @ digits10 (- n) else digits10 n)"

definition uuid_String :: "UUID \<Rightarrow> string" where
  "uuid_String u =
     (let h = Sprintf_x (be_bytes 16 u)
      in take 8 h @ ''-'' @ take 4 (drop 8 h) @ ''-'' @ take 4 (drop 12 h) @ ''-''
         @ take 4 (drop 16 h) @ ''-'' @ drop 20 h)"

subsection \<open>Signing methods\<close>

datatype crypto_Hash = crypto_SHA256 | crypto_SHA384 | crypto_SHA512

text \<open>
  The types of the registered signing methods. The key function of \<^verbatim>\<open>ValidateToken\<close> tells
  them apart by a type assertion.
\<close>

datatype SigningMethod =
    SigningMethodHMAC crypto_Hash
  | SigningMethodRSA crypto_Hash
  | SigningMethodRSAPSS crypto_Hash
  | SigningMethodECDSA crypto_Hash
  | SigningMethodEd25519
  | signingMethodNone

fun hash_size :: "crypto_Hash \<Rightarrow> string" where
  "hash_size crypto_SHA256 = ''256''"
| "hash_size crypto_SHA384 = ''384''"
| "hash_size crypto_SHA512 = ''512''"

fun Alg :: "SigningMethod \<Rightarrow> string" where
  "Alg (SigningMethodHMAC h) = ''HS'' @ hash_size h"
| "Alg (SigningMethodRSA h) = ''RS'' @ hash_size h"
| "Alg (SigningMethodRSAPSS h) = ''PS'' @ hash_size h"
| "Alg (SigningMethodECDSA h) = ''ES'' @ hash_size h"
| "Alg SigningMethodEd25519 = ''EdDSA''"
| "Alg signingMethodNone = ''none''"

definition SigningMethodHS256 :: SigningMethod where
  "SigningMethodHS256 = SigningMethodHMAC crypto_SHA256"

definition signingMethods :: "SigningMethod list" where
  "signingMethods =
     concat (map (\<lambda>h. [SigningMethodHMAC h, SigningMethodRSA h, SigningMethodRSAPSS h,
                        SigningMethodECDSA h]) [crypto_SHA256, crypto_SHA384, crypto_SHA512])
     @ [SigningMethodEd25519, signingMethodNone]"

definition GetSigningMethod :: "string \<Rightarrow> SigningMethod option" where
  "GetSigningMethod alg = find (\<lambda>m. Alg m = alg) signingMethods"

fun hmac_Sign :: "crypto_Hash \<Rightarrow> string \<Rightarrow> byte list \<Rightarrow> byte list" where
  "hmac_Sign crypto_SHA256 signingString key = hmac Sum256 64 key (bytes signingString)"
| "hmac_Sign crypto_SHA384 signingString key = hmac Sum384 128 key (bytes signingString)"
| "hmac_Sign crypto_SHA512 signingString key = hmac Sum512 128 key (bytes signingString)"

definition ErrInvalidKeyType :: error where
  "ErrInvalidKeyType = errorString ''key is of invalid type''"

definition ErrSignatureInvalid :: error where
  "ErrSignatureInvalid = errorString ''signature is invalid''"

definition NoneSignatureTypeDisallowedError :: error where
  "NoneSignatureTypeDisallowedError = errorString (quoted ''none'' @ '' signature type is not allowed'')"

definition ErrTokenMalformed :: error where
  "ErrTokenMalformed = errorString ''token is malformed''"

definition ErrTokenUnverifiable :: error where
  "ErrTokenUnverifiable = errorString ''token is unverifiable''"

definition ErrTokenSignatureInvalid :: error where
  "ErrTokenSignatureInvalid = errorString ''token signature is invalid''"

definition ErrTokenExpired :: error where
  "ErrTokenExpired = errorString ''token is expired''"

definition ErrTokenNotValidYet :: error where
  "ErrTokenNotValidYet = errorString ''token is not valid yet''"

definition ErrTokenInvalidClaims :: error where
  "ErrTokenInvalidClaims = errorString ''token has invalid claims''"

text \<open>
  The library's \<^verbatim>\<open>newError(message, err, more...)\<close>: an error that wraps \<open>err\<close> and the
  \<open>causes\<close>, its message theirs and \<open>message\<close> joined by colons.
\<close>

definition newError :: "string \<Rightarrow> error \<Rightarrow> error list \<Rightarrow> error" where
  "newError message err causes =
     (let msg = Error err @ (if message = [] then [] else '': '' @ message)
                 @ concat (map (\<lambda>e. '': '' @ Error e) causes)
      in if causes = [] then wrapError msg err else wrapErrors msg (err # causes))"

text \<open>
  \<^verbatim>\<open>Sign\<close> and \<^verbatim>\<open>Verify\<close> with a key of type \<^verbatim>\<open>[]byte\<close>, the only type of key the services
  hold: the HMAC methods compute the MAC; the others refuse the key.
\<close>

fun Sign :: "SigningMethod \<Rightarrow> string \<Rightarrow> byte list \<Rightarrow> error + byte list" where
  "Sign (SigningMethodHMAC h) signingString key = Inr (hmac_Sign h signingString key)"
| "Sign signingMethodNone signingString key = Inl NoneSignatureTypeDisallowedError"
| "Sign m signingString key = Inl ErrInvalidKeyType"

fun Verify :: "SigningMethod \<Rightarrow> string \<Rightarrow> byte list \<Rightarrow> byte list \<Rightarrow> error option" where
  "Verify (SigningMethodHMAC h) signingString sig key =
     (if sig = hmac_Sign h signingString key then None else Some ErrSignatureInvalid)"
| "Verify signingMethodNone signingString sig key = Some NoneSignatureTypeDisallowedError"
| "Verify m signingString sig key = Some ErrInvalidKeyType"

subsection \<open>Claims and tokens\<close>

record RegisteredClaims =
  Issuer :: string
  Subject :: string
  Audience :: "string list"
  ExpiresAt :: "Time option"
  NotBefore :: "Time option"
  IssuedAt :: "Time option"
  ID :: string

record TokenClaims =
  UserID :: UUID
  DomainID :: UUID
  Username :: string
  RoleID :: UUID
  RegisteredClaims :: RegisteredClaims

text \<open>\<^verbatim>\<open>jwt.NewNumericDate\<close> keeps whole seconds.\<close>

definition NewNumericDate :: "Time \<Rightarrow> Time option" where
  "NewNumericDate t = Some (Truncate t Second)"

record Token =
  Method :: SigningMethod
  Header :: "(string \<times> json) list"
  Claims :: TokenClaims
  Signature :: "byte list"
  Valid :: bool

text \<open>
  The JSON the library writes for the claims: the struct's fields in order, the fields of the
  embedded \<^verbatim>\<open>RegisteredClaims\<close> left out when empty.
\<close>

definition claims_json :: "TokenClaims \<Rightarrow> json" where
  "claims_json c =
     (let rc = RegisteredClaims c;
          date = (\<lambda>k d. case d of None \<Rightarrow> [] | Some t \<Rightarrow> [(k, JNumber (FormatInt (t div Second)))]);
          str = (\<lambda>k s. if s = [] then [] else [(k, JString s)])
      in JObject
          ([(''user_id'', JString (uuid_String (UserID c))),
            (''domain_id'', JString (uuid_String (TokenClaims.DomainID c))),
            (''username'', JString (TokenClaims.Username c)),
            (''role_id'', JString (uuid_String (RoleID c)))]
           @ str ''iss'' (Issuer rc) @ str ''sub'' (Subject rc)
           @ (if Audience rc = [] then [] else [(''aud'', JArray (map JString (Audience rc)))])
           @ date ''exp'' (ExpiresAt rc) @ date ''nbf'' (NotBefore rc) @ date ''iat'' (IssuedAt rc)
           @ str ''jti'' (RegisteredClaims.ID rc)))"

text \<open>
  A token string is written as the library reads it: malformed (with the library's reason),
  or three segments whose first two decode to a JSON header and to claims and whose third
  decodes, or not, to a signature. \<open>seg_signing\<close> is the text the signature covers, the
  first two segments as they stand. \<open>token_text\<close> is the string itself.
\<close>

record Segments =
  seg_signing :: string
  seg_header :: "(string \<times> json) list"
  seg_claims :: TokenClaims
  seg_signature :: "error + byte list"

datatype token_string = Malformed string | Compact Segments

definition token_text :: "Segments \<Rightarrow> string" where
  "token_text seg =
     seg_signing seg @ ''.''
       @ (case seg_signature seg of Inl _ \<Rightarrow> [] | Inr sig \<Rightarrow> EncodeSegment (map unat sig))"

definition NewWithClaims :: "SigningMethod \<Rightarrow> TokenClaims \<Rightarrow> Token" where
  "NewWithClaims method claims =
     \<lparr> Method = method,
       Header = [(''alg'', JString (Alg method)), (''typ'', JString ''JWT'')],
       Claims = claims, Signature = [], Valid = False \<rparr>"

definition SigningString :: "Token \<Rightarrow> string" where
  "SigningString token =
     EncodeSegment (map of_char (Marshal (JObject (Header token)))) @ ''.''
       @ EncodeSegment (map of_char (Marshal (claims_json (Claims token))))"

text \<open>
  \<^verbatim>\<open>SignedString\<close>: the string whose segments are the token's header, its claims and the
  signature of the two.
\<close>

definition SignedString :: "Token \<Rightarrow> byte list \<Rightarrow> error + token_string" where
  "SignedString token key =
     (case Sign (Method token) (SigningString token) key of
        Inl err \<Rightarrow> Inl err
      | Inr sig \<Rightarrow>
          Inr (Compact \<lparr> seg_signing = SigningString token, seg_header = Header token,
                         seg_claims = Claims token, seg_signature = Inr sig \<rparr>))"

subsection \<open>Parsing and validation\<close>

text \<open>
  \<^verbatim>\<open>ParseUnverified\<close>: the header's \<^verbatim>\<open>alg\<close> must be a string that names a registered
  method.
\<close>

definition ParseUnverified :: "token_string \<Rightarrow> error + Token \<times> Segments" where
  "ParseUnverified tokenString =
     (case tokenString of
        Malformed reason \<Rightarrow> Inl (newError reason ErrTokenMalformed [])
      | Compact parts \<Rightarrow>
          (case map_of (seg_header parts) ''alg'' of
             Some (JString alg) \<Rightarrow>
               (case GetSigningMethod alg of
                  None \<Rightarrow> Inl (newError ''signing method (alg) is unavailable'' ErrTokenUnverifiable [])
                | Some method \<Rightarrow>
                    Inr (\<lparr> Method = method, Header = seg_header parts, Claims = seg_claims parts,
                           Signature = [], Valid = False \<rparr>, parts))
           | _ \<Rightarrow> Inl (newError ''signing method (alg) is unspecified'' ErrTokenUnverifiable [])))"

text \<open>
  The default validator at the time \<open>now\<close> (its reading of \<^verbatim>\<open>time.Now()\<close>): a token with
  \<^verbatim>\<open>exp\<close> is good strictly before it, a token with \<^verbatim>\<open>nbf\<close> from it on.
\<close>

definition Validate :: "Time \<Rightarrow> TokenClaims \<Rightarrow> error option" where
  "Validate now claims =
     (let rc = RegisteredClaims claims;
          errs = (case ExpiresAt rc of
                    None \<Rightarrow> []
                  | Some exp \<Rightarrow> if now < exp then [] else [ErrTokenExpired])
                 @ (case NotBefore rc of
                      None \<Rightarrow> []
                    | Some nbf \<Rightarrow> if now < nbf then [ErrTokenNotValidYet] else [])
      in if errs = [] then None else Some (joinedError errs))"

text \<open>
  \<^verbatim>\<open>ParseWithClaims\<close>: parse, ask the key function for the key, decode and verify the
  signature, validate the claims; the token comes back with \<^verbatim>\<open>Valid\<close> set.
\<close>

definition ParseWithClaims ::
    "token_string \<Rightarrow> (Token \<Rightarrow> error + byte list) \<Rightarrow> Time \<Rightarrow> error + Token" where
  "ParseWithClaims tokenString keyFunc now =
     (case ParseUnverified tokenString of
        Inl err \<Rightarrow> Inl err
      | Inr (token, parts) \<Rightarrow>
          (case keyFunc token of
             Inl err \<Rightarrow> Inl (newError ''error while executing keyfunc'' ErrTokenUnverifiable [err])
           | Inr key \<Rightarrow>
               (case seg_signature parts of
                  Inl err \<Rightarrow>
                    Inl (newError ''could not base64 decode signature'' ErrTokenMalformed [err])
                | Inr sig \<Rightarrow>
                    (case Verify (Method token) (seg_signing parts) sig key of
                       Some err \<Rightarrow> Inl (newError [] ErrTokenSignatureInvalid [err])
                     | None \<Rightarrow>
                         (case Validate now (Claims token) of
                            Some err \<Rightarrow> Inl (newError [] ErrTokenInvalidClaims [err])
                          | None \<Rightarrow> Inr (token\<lparr>Signature := sig, Valid := True\<rparr>))))))"

section \<open>Services\<close>

subsection \<open>User, domain and role services\<close>

definition hashPassword :: "string \<Rightarrow> string" where
  "hashPassword password = (let hash = Sum256 (bytes password) in Sprintf_x hash)"

definition VerifyPassword :: "string \<Rightarrow> string \<Rightarrow> bool" where
  "VerifyPassword hashedPassword password \<longleftrightarrow> hashPassword password = hashedPassword"

definition ListUsersWithPagination ::
    "User list \<Rightarrow> go_int \<Rightarrow> go_int \<Rightarrow> error + User ListResult" where
  "ListUsersWithPagination selected page0 limit0 =
     (let page = (if sint page0 \<le> 0 then 1 else page0);
          limit = (if sint limit0 \<le> 0 \<or> 100 < sint limit0 then 10 else limit0)
      in userRepository_ListWithPagination selected page limit)"

definition ListDomainsWithPagination ::
    "Domain list \<Rightarrow> go_int \<Rightarrow> go_int \<Rightarrow> error + Domain ListResult" where
  "ListDomainsWithPagination selected page0 limit0 =
     (let page = (if sint page0 \<le> 0 then 1 else page0);
          limit = (if sint limit0 \<le> 0 \<or> 100 < sint limit0 then 10 else limit0)
      in domainRepository_ListWithPagination selected page limit)"

definition ListRolesWithPagination ::
    "role_row list \<Rightarrow> go_int \<Rightarrow> go_int \<Rightarrow> error + Role ListResult" where
  "ListRolesWithPagination selected page0 limit0 =
     (let page = (if sint page0 \<le> 0 then 1 else page0);
          limit = (if sint limit0 \<le> 0 \<or> 100 < sint limit0 then 10 else limit0)
      in roleRepository_ListWithPagination selected page limit)"

text \<open>
  \<^verbatim>\<open>CreateRole\<close> and \<^verbatim>\<open>UpdateRole\<close> return the role (or the error) and leave the tables as
  the repository left them. \<^verbatim>\<open>make(map[string]interface{})\<close> is the empty map \<open>Some []\<close>.
\<close>

definition CreateRole ::
    "DB \<Rightarrow> UUID \<Rightarrow> Time \<Rightarrow> UUID \<Rightarrow> string \<Rightarrow> claims_map \<Rightarrow> (error + Role) \<times> DB" where
  "CreateRole db newID now domainID roleName roleClaims0 =
     (let roleClaims = (if roleClaims0 = None then Some [] else roleClaims0);
          role = \<lparr> Role.ID = 0, Role.DomainID = domainID, Role.RoleName = roleName,
                   Role.RoleClaims = roleClaims, Role.CreatedAt = zeroTime,
                   Role.UpdatedAt = zeroTime \<rparr>
      in case roleRepository_Create db newID now role of
           (Some err, role', db') \<Rightarrow> (Inl err, db')
         | (None, role', db') \<Rightarrow> (Inr role', db'))"

definition UpdateRole ::
    "DB \<Rightarrow> Time \<Rightarrow> UUID \<Rightarrow> string \<Rightarrow> claims_map \<Rightarrow> (error + Role) \<times> DB" where
  "UpdateRole db now rid roleName roleClaims0 =
     (let roleClaims = (if roleClaims0 = None then Some [] else roleClaims0);
          role = \<lparr> Role.ID = rid, Role.DomainID = 0, Role.RoleName = roleName,
                   Role.RoleClaims = roleClaims, Role.CreatedAt = zeroTime,
                   Role.UpdatedAt = zeroTime \<rparr>
      in case roleRepository_Update db now role of
           (Some err, db') \<Rightarrow> (Inl err, db')
         | (None, db') \<Rightarrow> (Inr role, db'))"

subsection \<open>The authentication service\<close>

record RoleProfile =
  ID :: UUID
  Name :: string
  Description :: string
  Claims :: claims_map

record DomainProfile =
  ID :: UUID
  Name :: string
  Description :: string

record UserProfile =
  ID :: UUID
  Username :: string
  Email :: string
  FirstName :: string
  LastName :: string
  Role :: RoleProfile
  Domain :: DomainProfile

record LoginResponse =
  AccessToken :: token_string
  User :: UserProfile

text \<open>
  The three repositories of the service read one database (\<^verbatim>\<open>SetupRouter\<close> builds them on
  the same handle): \<open>repos\<close> is its tables.
\<close>

record authService =
  repos :: DB
  jwtSecret :: "byte list"
  tokenExpiry :: Duration

definition NewAuthService :: "DB \<Rightarrow> string \<Rightarrow> authService" where
  "NewAuthService database secret =
     \<lparr> repos = database, jwtSecret = bytes secret, tokenExpiry = 24 * Hour \<rparr>"

definition verifyPassword :: "string \<Rightarrow> string \<Rightarrow> bool" where
  "verifyPassword hashedPassword password \<longleftrightarrow>
     (let hash = Sum256 (bytes password) in Sprintf_x hash = hashedPassword)"

text \<open>
  \<^verbatim>\<open>generateToken\<close> reads \<^verbatim>\<open>time.Now()\<close> three times, for \<^verbatim>\<open>ExpiresAt\<close>, \<^verbatim>\<open>IssuedAt\<close> and
  \<^verbatim>\<open>NotBefore\<close> in this order: \<open>now1\<close>, \<open>now2\<close>, \<open>now3\<close>.
\<close>

definition generateToken ::
    "authService \<Rightarrow> Time \<Rightarrow> Time \<Rightarrow> Time \<Rightarrow> User \<Rightarrow> error + token_string" where
  "generateToken s now1 now2 now3 user =
     (let claims =
            \<lparr> TokenClaims.UserID = User.ID user, TokenClaims.DomainID = User.DomainID user,
              TokenClaims.Username = User.Username user, TokenClaims.RoleID = User.RoleID user,
              TokenClaims.RegisteredClaims =
                \<lparr> Issuer = ''nusarithm-iam'', Subject = uuid_String (User.ID user),
                  Audience = [], ExpiresAt = NewNumericDate (now1 + tokenExpiry s),
                  NotBefore = NewNumericDate now3, IssuedAt = NewNumericDate now2,
                  RegisteredClaims.ID = [] \<rparr> \<rparr>;
          token = NewWithClaims SigningMethodHS256 claims
      in SignedString token (jwtSecret s))"

definition buildUserProfile :: "authService \<Rightarrow> User \<Rightarrow> error + UserProfile" where
  "buildUserProfile s user =
     (case roleRepository_GetByID (repos s) (User.RoleID user) of
        Inl err \<Rightarrow> Inl (Errorf_w ''failed to get role: '' err)
      | Inr role \<Rightarrow>
          (case domainRepository_GetByID (repos s) (User.DomainID user) of
             Inl err \<Rightarrow> Inl (Errorf_w ''failed to get domain: '' err)
           | Inr domain \<Rightarrow>
               Inr \<lparr> UserProfile.ID = User.ID user,
                     UserProfile.Username = User.Username user,
                     UserProfile.Email = User.Email user,
                     UserProfile.FirstName = User.FirstName user,
                     UserProfile.LastName = User.LastName user,
                     UserProfile.Role =
                       \<lparr> RoleProfile.ID = Role.ID role, RoleProfile.Name = Role.RoleName role,
                         RoleProfile.Description = [],
                         RoleProfile.Claims = Role.RoleClaims role \<rparr>,
                     UserProfile.Domain =
                       \<lparr> DomainProfile.ID = Domain.DomainID domain,
                         DomainProfile.Name = Domain.Name domain,
                         DomainProfile.Description = Domain.Domain domain \<rparr> \<rparr>))"

definition Login ::
    "authService \<Rightarrow> Time \<Rightarrow> Time \<Rightarrow> Time \<Rightarrow> UUID \<Rightarrow> string \<Rightarrow> string \<Rightarrow> error + LoginResponse" where
  "Login s now1 now2 now3 domainID username password =
     (case userRepository_GetByUsername (repos s) username of
        Inl err \<Rightarrow> Inl (errorString ''invalid credentials'')
      | Inr user \<Rightarrow>
          if User.DomainID user \<noteq> domainID then Inl (errorString ''invalid credentials'')
          else if \<not> verifyPassword (User.PasswordHash user) password then
            Inl (errorString ''invalid credentials'')
          else
            (case generateToken s now1 now2 now3 user of
               Inl err \<Rightarrow> Inl (Errorf_w ''failed to generate token: '' err)
             | Inr token \<Rightarrow>
                 (case buildUserProfile s user of
                    Inl err \<Rightarrow> Inl (Errorf_w ''failed to build user profile: '' err)
                  | Inr userProfile \<Rightarrow>
                      Inr \<lparr> AccessToken = token, User = userProfile \<rparr>)))"

text \<open>
  The key function of \<^verbatim>\<open>ValidateToken\<close>: the secret for a method of type
  \<^verbatim>\<open>*jwt.SigningMethodHMAC\<close>, an error for every other. \<open>Sprint_v\<close> prints the header's
  \<^verbatim>\<open>alg\<close> as \<^verbatim>\<open>%v\<close> does (the parser has found the method by this string; a composite
  value, which cannot reach the key function, is shown by its JSON text).
\<close>

fun Sprint_v :: "json option \<Rightarrow> string" where
  "Sprint_v (Some (JString s)) = s"
| "Sprint_v (Some (JBool b)) = (if b then ''true'' else ''false'')"
| "Sprint_v (Some (JNumber n)) = n"
| "Sprint_v (Some JNull) = ''<nil>''"
| "Sprint_v None = ''<nil>''"
| "Sprint_v (Some j) = Marshal j"

definition keyFunc :: "authService \<Rightarrow> Token \<Rightarrow> error + byte list" where
  "keyFunc s token =
     (case Method token of
        SigningMethodHMAC h \<Rightarrow> Inr (jwtSecret s)
      | _ \<Rightarrow>
          Inl (errorString (''unexpected signing method: '' @ Sprint_v (map_of (Header token) ''alg''))))"

definition ValidateToken :: "authService \<Rightarrow> Time \<Rightarrow> token_string \<Rightarrow> error + TokenClaims" where
  "ValidateToken s now tokenString =
     (case ParseWithClaims tokenString (keyFunc s) now of
        Inl err \<Rightarrow> Inl (Errorf_w ''invalid token: '' err)
      | Inr token \<Rightarrow>
          if Valid token then Inr (Token.Claims token)
          else Inl (errorString ''invalid token claims''))"

definition GetProfile :: "authService \<Rightarrow> UUID \<Rightarrow> error + UserProfile" where
  "GetProfile s userID =
     (case userRepository_GetByID (repos s) userID of
        Inl err \<Rightarrow> Inl (errorString ''user not found'')
      | Inr user \<Rightarrow> buildUserProfile s user)"

section \<open>The handler of /auth/validate\<close>

text \<open>
  \<^verbatim>\<open>AuthHandler.ValidateToken\<close> answers with a status and a JSON body. \<open>read\<close> is the jwt
  library's reading of the bearer string (see \<open>token_string\<close>).
\<close>

datatype body = H_error string | H_valid_claims bool TokenClaims

definition AuthHandler_ValidateToken ::
    "(string \<Rightarrow> token_string) \<Rightarrow> authService \<Rightarrow> Time \<Rightarrow> string \<Rightarrow> nat \<times> body" where
  "AuthHandler_ValidateToken read s now authHeader =
     (if authHeader = [] then (401, H_error ''Authorization header is required'')
      else
        (let tokenString = TrimPrefix authHeader ''Bearer ''
         in if tokenString = authHeader then
              (401, H_error ''Invalid authorization header format'')
            else
              (case ValidateToken s now (read tokenString) of
                 Inl err \<Rightarrow> (401, H_error ''Invalid or expired token'')
               | Inr claims \<Rightarrow> (200, H_valid_claims True claims))))"

section \<open>A concrete directory\<close>

text \<open>
  The scenario of the specification: the domain with key \<^verbatim>\<open>acme\<close>, its role \<^verbatim>\<open>admin\<close> with
  claims \<^verbatim>\<open>{}\<close>, its user \<^verbatim>\<open>alice\<close> with password \<^verbatim>\<open>s3cret!\<close>, a second domain, and the
  service as \<^verbatim>\<open>SetupRouter\<close> builds it.
\<close>

definition acme :: Domain where
  "acme = \<lparr> Domain.DomainID = 0xd0d1d2d3d4d5d6d7d8d9dadbdcdddedf, Domain.Name = ''Acme Corp'',
            Domain.Domain = ''acme'' \<rparr>"

definition globex :: Domain where
  "globex = \<lparr> Domain.DomainID = 0xe0e1e2e3e4e5e6e7e8e9eaebecedeeef, Domain.Name = ''Globex'',
              Domain.Domain = ''globex'' \<rparr>"

definition admin :: role_row where
  "admin = \<lparr> row_id = 0xa0a1a2a3a4a5a6a7a8a9aaabacadaeaf,
             row_domain_id = 0xd0d1d2d3d4d5d6d7d8d9dadbdcdddedf, row_role_name = ''admin'',
             row_role_claims = Some (JObject []), row_created_at = 1700000000 * Second,
             row_updated_at = 1700000000 * Second \<rparr>"

definition alice :: User where
  "alice = \<lparr> User.ID = 0x0102030405060708090a0b0c0d0e0f10,
             User.DomainID = 0xd0d1d2d3d4d5d6d7d8d9dadbdcdddedf,
             User.RoleID = 0xa0a1a2a3a4a5a6a7a8a9aaabacadaeaf, User.FirstName = ''Alice'',
             User.LastName = ''Liddell'', User.Username = ''alice'',
             User.Email = ''alice@acme.example'',
             User.PasswordHash =
               ''5cb7b35eb7ae9bbd505baa5cde3fb64c1e9a5e8862072013989c0a557ab9eaa2'',
             User.CreatedAt = 1700000000 * Second, User.UpdatedAt = 1700000000 * Second \<rparr>"

definition directory :: DB where
  "directory = \<lparr> users = [alice], roles = [admin], domains = [acme, globex] \<rparr>"

definition service :: authService where
  "service = NewAuthService directory ''your-secret-key''"

text \<open>An instant (in nanoseconds) at which \<open>alice\<close> logs in.\<close>

definition noon :: Time where
  "noon = 1750000000123456789"

text \<open>
  The claims and the token that \<open>alice\<close> is handed when she logs in at \<open>noon\<close>, and a reading
  of bearer strings that knows this token.
\<close>

definition alice_claims :: TokenClaims where
  "alice_claims =
     \<lparr> TokenClaims.UserID = User.ID alice, TokenClaims.DomainID = User.DomainID alice,
       TokenClaims.Username = ''alice'', TokenClaims.RoleID = User.RoleID alice,
       TokenClaims.RegisteredClaims =
         \<lparr> Issuer = ''nusarithm-iam'', Subject = uuid_String (User.ID alice), Audience = [],
           ExpiresAt = Some (1750086400 * Second), NotBefore = Some (1750000000 * Second),
           IssuedAt = Some (1750000000 * Second), RegisteredClaims.ID = [] \<rparr> \<rparr>"

definition alice_parts :: Segments where
  "alice_parts =
     (let signing = SigningString (NewWithClaims SigningMethodHS256 alice_claims)
      in \<lparr> seg_signing = signing,
           seg_header = [(''alg'', JString ''HS256''), (''typ'', JString ''JWT'')],
           seg_claims = alice_claims,
           seg_signature = Inr (hmac_Sign crypto_SHA256 signing (bytes ''your-secret-key'')) \<rparr>)"

definition read_bearer :: "string \<Rightarrow> token_string" where
  "read_bearer tokenString =
     (if tokenString = token_text alice_parts then Compact alice_parts
      else Malformed ''token contains an invalid number of segments'')"

section \<open>The credential hasher\<close>

lemma sha2_round_length: "length v = 8 \<Longrightarrow> length (sha2_round P v kw) = 8"
proof -
  assume "length v = 8"
  then obtain a b c d e f g h where v: "v = [a, b, c, d, e, f, g, h]"
    by (auto simp: eval_nat_numeral length_Suc_conv)
  obtain k w where kw: "kw = (k, w)" by (cases kw)
  show ?thesis by (simp add: v kw Let_def)
qed

lemma foldl_round_length: "length v = 8 \<Longrightarrow> length (foldl (sha2_round P) v xs) = 8"
  by (induction xs arbitrary: v) (simp_all add: sha2_round_length)

lemma compress_length: "length H = 8 \<Longrightarrow> length (compress P H blk) = 8"
  by (simp add: compress_def Let_def foldl_round_length)

lemma foldl_compress_length: "length H = 8 \<Longrightarrow> length (foldl (compress P) H bs) = 8"
  by (induction bs arbitrary: H) (simp_all add: compress_length)

lemma be_bytes_length: "length (be_bytes n w) = n"
  by (simp add: be_bytes_def)

lemma concat_be_bytes_length: "length (concat (map (be_bytes n) ws)) = n * length ws"
  by (induction ws) (simp_all add: be_bytes_length)

lemma Sum256_length: "length (Sum256 m) = 32"
proof -
  have "length (H0 SHA256) = 8" by (simp add: SHA256_def H256_def)
  then have "length (foldl (compress SHA256) (H0 SHA256) bs) = 8" for bs
    by (rule foldl_compress_length)
  then show ?thesis
    by (simp add: Sum256_def sha2_def Let_def concat_be_bytes_length)
qed

lemma Sprintf_x_length: "length (Sprintf_x bs) = 2 * length bs"
  by (induction bs) (simp_all add: Sprintf_x_def)

lemma hashPassword_length: "length (hashPassword p) = 64"
  by (simp add: hashPassword_def Let_def Sprintf_x_length Sum256_length)

lemma verifyPassword_eq: "verifyPassword digest p = (hashPassword p = digest)"
  by (simp add: verifyPassword_def hashPassword_def Let_def)

text \<open>
  The digests are strings of 64 characters, finitely many, and the passwords are all the
  strings: two passwords share a digest.
\<close>

lemma hashPassword_not_inj: "\<not> inj hashPassword"
proof
  assume inj: "inj hashPassword"
  have "range hashPassword \<subseteq> {s. set s \<subseteq> UNIV \<and> length s = 64}"
    by (auto simp: hashPassword_length)
  moreover have "finite {s :: string. set s \<subseteq> UNIV \<and> length s = 64}"
    by (rule finite_lists_length_eq) simp
  ultimately have "finite (range hashPassword)"
    by (rule finite_subset)
  then have "finite (UNIV :: string set)"
    using inj by (rule finite_imageD)
  then show False
    by (simp add: infinite_UNIV_listI)
qed

text \<open>The digests of the scenario, computed.\<close>

lemma hash_s3cret:
  "hashPassword ''s3cret!'' = ''5cb7b35eb7ae9bbd505baa5cde3fb64c1e9a5e8862072013989c0a557ab9eaa2''"
  by code_simp

lemma hash_wrong:
  "hashPassword ''wrong'' = ''8810ad581e59f2bc3928b261707a71308f7e139eb04820366dc4d5c18d980225''"
  by code_simp

text \<open>
  C5, as amended. The hasher is a function of the password alone; both verifiers (of the user
  service and of the authentication service) accept a password exactly when its digest is the
  stored one. So a password verifies against its own digest, and another password verifies
  against that digest exactly when the two digests are equal.
\<close>

theorem hasher_verify_iff:
  "VerifyPassword digest p = (hashPassword p = digest)
   \<and> verifyPassword digest p = (hashPassword p = digest)
   \<and> VerifyPassword (hashPassword p) p
   \<and> verifyPassword (hashPassword p) p
   \<and> VerifyPassword (hashPassword p) p2 = (hashPassword p2 = hashPassword p)
   \<and> verifyPassword (hashPassword p) p2 = (hashPassword p2 = hashPassword p)
   \<and> length (hashPassword p) = 64"
  by (simp add: VerifyPassword_def verifyPassword_eq hashPassword_length)

text \<open>
  C5 at the scenario's passwords: \<^verbatim>\<open>s3cret!\<close> verifies against its digest and \<^verbatim>\<open>wrong\<close> does
  not.
\<close>

theorem hasher_verify_iff_witness:
  "verifyPassword (hashPassword ''s3cret!'') ''s3cret!''
   \<and> \<not> verifyPassword (hashPassword ''s3cret!'') ''wrong''
   \<and> \<not> VerifyPassword (hashPassword ''s3cret!'') ''wrong''"
  using hasher_verify_iff [of "hashPassword ''s3cret!''" "''s3cret!''" "''wrong''"]
  by (simp add: hash_s3cret hash_wrong)

text \<open>
  C5 as stated fails: some two different passwords verify against each other's digest
  (in both verifiers).
\<close>

theorem hasher_collision:
  "\<exists>p p2. p \<noteq> p2 \<and> VerifyPassword (hashPassword p) p2 \<and> verifyPassword (hashPassword p) p2"
proof -
  from hashPassword_not_inj obtain p p2 where "p \<noteq> p2" "hashPassword p = hashPassword p2"
    by (auto simp: inj_on_def)
  then show ?thesis
    by (intro exI [of _ p] exI [of _ p2]) (simp add: VerifyPassword_def verifyPassword_eq)
qed

section \<open>Lookups and tokens\<close>

lemma find_distinct_key:
  "distinct (map f xs) \<Longrightarrow> x \<in> set xs \<Longrightarrow> find (\<lambda>y. f y = f x) xs = Some x"
  by (induction xs) (auto simp: image_iff)

lemma find_None_key: "k \<notin> f ` set xs \<Longrightarrow> find (\<lambda>y. f y = k) xs = None"
  by (induction xs) auto

lemma GetByUsername_stored:
  "keys_ok db \<Longrightarrow> user \<in> set (users db) \<Longrightarrow>
   userRepository_GetByUsername db (User.Username user) = Inr user"
  by (simp add: userRepository_GetByUsername_def keys_ok_def find_distinct_key)

lemma GetByID_stored:
  "keys_ok db \<Longrightarrow> user \<in> set (users db) \<Longrightarrow>
   userRepository_GetByID db (User.ID user) = Inr user"
  by (simp add: userRepository_GetByID_def keys_ok_def find_distinct_key)

lemma domain_GetByID_stored:
  "keys_ok db \<Longrightarrow> d \<in> set (domains db) \<Longrightarrow>
   domainRepository_GetByID db (Domain.DomainID d) = Inr d"
  by (simp add: domainRepository_GetByID_def keys_ok_def find_distinct_key)

lemma role_GetByID_stored:
  "keys_ok db \<Longrightarrow> r \<in> set (roles db) \<Longrightarrow>
   roleRepository_GetByID db (row_id r) = scan_role r"
  by (simp add: roleRepository_GetByID_def keys_ok_def find_distinct_key)

lemma GetSigningMethod_HMAC:
  "GetSigningMethod (Alg (SigningMethodHMAC h)) = Some (SigningMethodHMAC h)"
  by (cases h) (simp_all add: GetSigningMethod_def signingMethods_def)

lemma GetSigningMethod_Alg: "GetSigningMethod alg = Some m \<Longrightarrow> Alg m = alg"
  by (auto simp: GetSigningMethod_def find_Some_iff)

lemma Validate_None_iff:
  "Validate now c = None \<longleftrightarrow>
     (\<forall>exp. ExpiresAt (RegisteredClaims c) = Some exp \<longrightarrow> now < exp) \<and>
     (\<forall>nbf. NotBefore (RegisteredClaims c) = Some nbf \<longrightarrow> nbf \<le> now)"
  by (auto simp: Validate_def Let_def split: option.splits)

lemma ParseWithClaims_Inr_iff:
  "ParseWithClaims tokenString (keyFunc s) now = Inr token \<longleftrightarrow>
     (\<exists>parts h sig.
        tokenString = Compact parts \<and>
        map_of (seg_header parts) ''alg'' = Some (JString (Alg (SigningMethodHMAC h))) \<and>
        seg_signature parts = Inr sig \<and>
        sig = hmac_Sign h (seg_signing parts) (jwtSecret s) \<and>
        Validate now (seg_claims parts) = None \<and>
        token = \<lparr> Method = SigningMethodHMAC h, Header = seg_header parts,
                  Claims = seg_claims parts, Signature = sig, Valid = True \<rparr>)"
  (is "?L \<longleftrightarrow> ?R")
proof
  assume ?L
  then show ?R
    by (auto simp: ParseWithClaims_def ParseUnverified_def keyFunc_def simp del: Alg.simps
        split: token_string.splits option.splits json.splits sum.splits prod.splits
          SigningMethod.splits if_splits dest: GetSigningMethod_Alg)
next
  assume ?R
  then show ?L
    by (auto simp: ParseWithClaims_def ParseUnverified_def keyFunc_def GetSigningMethod_HMAC
        simp del: Alg.simps)
qed

lemma ValidateToken_Inr_iff:
  "ValidateToken s now tokenString = Inr claims \<longleftrightarrow>
     (\<exists>parts h sig.
        tokenString = Compact parts \<and>
        map_of (seg_header parts) ''alg'' = Some (JString (Alg (SigningMethodHMAC h))) \<and>
        seg_signature parts = Inr sig \<and>
        sig = hmac_Sign h (seg_signing parts) (jwtSecret s) \<and>
        Validate now (seg_claims parts) = None \<and>
        claims = seg_claims parts)"
  (is "?L \<longleftrightarrow> ?R")
proof
  assume ?L
  then obtain token where "ParseWithClaims tokenString (keyFunc s) now = Inr token"
    and "Token.Claims token = claims"
    by (auto simp: ValidateToken_def split: sum.splits if_splits)
  then obtain parts h sig where "tokenString = Compact parts"
      "map_of (seg_header parts) ''alg'' = Some (JString (Alg (SigningMethodHMAC h)))"
      "seg_signature parts = Inr sig" "sig = hmac_Sign h (seg_signing parts) (jwtSecret s)"
      "Validate now (seg_claims parts) = None" "claims = seg_claims parts"
    unfolding ParseWithClaims_Inr_iff by fastforce
  then show ?R
    by blast
next
  assume ?R
  then obtain parts h sig where *: "tokenString = Compact parts"
      "map_of (seg_header parts) ''alg'' = Some (JString (Alg (SigningMethodHMAC h)))"
      "seg_signature parts = Inr sig" "sig = hmac_Sign h (seg_signing parts) (jwtSecret s)"
      "Validate now (seg_claims parts) = None" "claims = seg_claims parts"
    by blast
  then have "ParseWithClaims tokenString (keyFunc s) now =
      Inr \<lparr> Method = SigningMethodHMAC h, Header = seg_header parts,
            Claims = seg_claims parts, Signature = sig, Valid = True \<rparr>"
    unfolding ParseWithClaims_Inr_iff by blast
  then show ?L
    by (simp add: ValidateToken_def *)
qed

section \<open>The scenario\<close>

text \<open>The directory of the scenario satisfies the schema, and its service is as built.\<close>

lemma scenario_keys: "keys_ok directory"
  by (simp add: keys_ok_def directory_def alice_def admin_def acme_def globex_def)

lemma scenario_references: "references_ok directory"
  by (simp add: references_ok_def directory_def alice_def admin_def acme_def globex_def)

lemma scenario_schema: "schema_ok directory"
  by (simp add: schema_ok_def scenario_keys scenario_references)

lemma scenario_written: "roles_written directory"
  by (simp add: roles_written_def directory_def admin_def)

lemma service_simps:
  "repos service = directory" "jwtSecret service = bytes ''your-secret-key''"
  "tokenExpiry service = 24 * Hour"
  by (simp_all add: service_def NewAuthService_def)

lemma alice_stored: "alice \<in> set (users directory)"
  by (simp add: directory_def)

lemma alice_password: "User.PasswordHash alice = hashPassword ''s3cret!''"
  by (simp add: alice_def hash_s3cret)

lemma GetByUsername_missing:
  "username \<notin> User.Username ` set (users db) \<Longrightarrow>
   userRepository_GetByUsername db username = Inl ErrNoRows"
  by (simp add: userRepository_GetByUsername_def find_None_key)

section \<open>Login\<close>

text \<open>
  C4. \<^verbatim>\<open>Login\<close> answers a username that is not found, a user of another domain than the
  requested one, and a password whose digest is not the stored one with one and the same
  error value, the \<^verbatim>\<open>errors.New\<close> of \<^verbatim>\<open>invalid credentials\<close>: the result does not tell which of the
  three checks failed.
\<close>

theorem login_failures_identical:
  assumes "(\<exists>err. userRepository_GetByUsername (repos s) username = Inl err)
           \<or> (\<exists>user. userRepository_GetByUsername (repos s) username = Inr user
                 \<and> (User.DomainID user \<noteq> domainID
                      \<or> \<not> verifyPassword (User.PasswordHash user) password))"
  shows "Login s now1 now2 now3 domainID username password
           = Inl (errorString ''invalid credentials'')"
  using assms by (auto simp: Login_def)

text \<open>
  C4 in the scenario: an unknown user, \<open>alice\<close> at the other domain, and \<open>alice\<close> with a
  wrong password get the same answer.
\<close>

theorem login_failures_identical_witness:
  "Login service noon noon noon (Domain.DomainID acme) ''bob'' ''s3cret!''
     = Inl (errorString ''invalid credentials'')
   \<and> Login service noon noon noon (Domain.DomainID globex) ''alice'' ''s3cret!''
     = Inl (errorString ''invalid credentials'')
   \<and> Login service noon noon noon (Domain.DomainID acme) ''alice'' ''wrong''
     = Inl (errorString ''invalid credentials'')"
proof -
  have alice: "userRepository_GetByUsername (repos service) ''alice'' = Inr alice"
    using GetByUsername_stored [OF scenario_keys alice_stored]
    by (simp add: service_simps alice_def)
  have "userRepository_GetByUsername (repos service) ''bob'' = Inl ErrNoRows"
    by (rule GetByUsername_missing) (simp add: service_simps directory_def alice_def)
  then have 1: "Login service noon noon noon (Domain.DomainID acme) ''bob'' ''s3cret!''
     = Inl (errorString ''invalid credentials'')"
    by (intro login_failures_identical) simp
  have "User.DomainID alice \<noteq> Domain.DomainID globex"
    by (simp add: alice_def globex_def)
  with alice have 2: "Login service noon noon noon (Domain.DomainID globex) ''alice'' ''s3cret!''
     = Inl (errorString ''invalid credentials'')"
    by (intro login_failures_identical) simp
  have "\<not> verifyPassword (User.PasswordHash alice) ''wrong''"
    by (simp add: verifyPassword_eq alice_def hash_wrong)
  with alice have 3: "Login service noon noon noon (Domain.DomainID acme) ''alice'' ''wrong''
     = Inl (errorString ''invalid credentials'')"
    by (intro login_failures_identical) simp
  from 1 2 3 show ?thesis by simp
qed

text \<open>
  C3. For every stored user and every requested domain other than the user's, \<^verbatim>\<open>Login\<close>
  with the user's name fails with \<^verbatim>\<open>invalid credentials\<close>, whatever the password, the
  right one included.
\<close>

theorem login_other_domain_rejected:
  assumes "keys_ok (repos s)" and "user \<in> set (users (repos s))"
    and "User.DomainID user \<noteq> domainID"
  shows "Login s now1 now2 now3 domainID (User.Username user) password
           = Inl (errorString ''invalid credentials'')"
  using assms by (simp add: Login_def GetByUsername_stored)

text \<open>C3 in the scenario: \<open>alice\<close> with her password, at the domain \<^verbatim>\<open>globex\<close>.\<close>

theorem login_other_domain_rejected_witness:
  "verifyPassword (User.PasswordHash alice) ''s3cret!''
   \<and> Login service noon noon noon (Domain.DomainID globex) ''alice'' ''s3cret!''
       = Inl (errorString ''invalid credentials'')"
proof -
  have "keys_ok (repos service)" "alice \<in> set (users (repos service))"
    "User.DomainID alice \<noteq> Domain.DomainID globex"
    by (simp_all add: service_simps scenario_keys alice_stored) (simp add: alice_def globex_def)
  from login_other_domain_rejected [OF this, of noon noon noon "''s3cret!''"]
  show ?thesis
    by (simp add: verifyPassword_eq alice_password) (simp add: alice_def)
qed

text \<open>
  Under the schema, and with role rows as the role repository writes them, the profile of a
  stored user can be built; and a token that \<^verbatim>\<open>generateToken\<close> signs is accepted by
  \<^verbatim>\<open>ValidateToken\<close> from its \<^verbatim>\<open>nbf\<close> until its \<^verbatim>\<open>exp\<close>.
\<close>

lemma written_claims_scan: "written_claims (row_role_claims r) \<Longrightarrow> \<exists>role. scan_role r = Inr role"
  by (cases "row_role_claims r" rule: written_claims.cases) (simp_all add: scan_role_def)

lemma buildUserProfile_stored:
  assumes "schema_ok (repos s)" and "roles_written (repos s)" and "user \<in> set (users (repos s))"
  shows "\<exists>profile. buildUserProfile s user = Inr profile"
proof -
  from assms(1) have keys: "keys_ok (repos s)" and refs: "references_ok (repos s)"
    by (simp_all add: schema_ok_def)
  from refs assms(3) have "User.RoleID user \<in> row_id ` set (roles (repos s))"
    and "User.DomainID user \<in> Domain.DomainID ` set (domains (repos s))"
    by (simp_all add: references_ok_def list_all_iff)
  then obtain r d where r: "r \<in> set (roles (repos s))" "row_id r = User.RoleID user"
    and d: "d \<in> set (domains (repos s))" "Domain.DomainID d = User.DomainID user"
    by (metis imageE)
  from assms(2) r(1) have "written_claims (row_role_claims r)"
    by (simp add: roles_written_def list_all_iff)
  then obtain role where "scan_role r = Inr role"
    using written_claims_scan by blast
  with role_GetByID_stored [OF keys r(1)] r(2)
  have role: "roleRepository_GetByID (repos s) (User.RoleID user) = Inr role"
    by simp
  from domain_GetByID_stored [OF keys d(1)] d(2)
  have "domainRepository_GetByID (repos s) (User.DomainID user) = Inr d"
    by simp
  with role show ?thesis
    by (simp add: buildUserProfile_def)
qed

lemma generateToken_validates:
  assumes "Truncate now3 Second \<le> now" and "now < Truncate (now1 + tokenExpiry s) Second"
  shows "\<exists>token claims.
           generateToken s now1 now2 now3 user = Inr token \<and>
           ValidateToken s now token = Inr claims \<and>
           UserID claims = User.ID user \<and>
           TokenClaims.DomainID claims = User.DomainID user \<and>
           TokenClaims.Username claims = User.Username user \<and>
           RoleID claims = User.RoleID user"
proof -
  obtain parts where token: "generateToken s now1 now2 now3 user = Inr (Compact parts)"
    and parts: "map_of (seg_header parts) ''alg'' = Some (JString (Alg (SigningMethodHMAC crypto_SHA256)))"
      "seg_signature parts = Inr (hmac_Sign crypto_SHA256 (seg_signing parts) (jwtSecret s))"
      "ExpiresAt (RegisteredClaims (seg_claims parts)) = Some (Truncate (now1 + tokenExpiry s) Second)"
      "NotBefore (RegisteredClaims (seg_claims parts)) = Some (Truncate now3 Second)"
      "UserID (seg_claims parts) = User.ID user"
      "TokenClaims.DomainID (seg_claims parts) = User.DomainID user"
      "TokenClaims.Username (seg_claims parts) = User.Username user"
      "RoleID (seg_claims parts) = User.RoleID user"
    by (simp add: generateToken_def SignedString_def NewWithClaims_def SigningMethodHS256_def
        Let_def NewNumericDate_def)
  have "Validate now (seg_claims parts) = None"
    using assms by (simp add: Validate_None_iff parts)
  with parts(1,2) have "ValidateToken s now (Compact parts) = Inr (seg_claims parts)"
    unfolding ValidateToken_Inr_iff by blast
  with token parts show ?thesis
    by simp
qed

text \<open>
  C1. For every user stored in the directory (the tables satisfy the schema, the role rows
  are as the repository writes them) whose stored digest is the digest of the password,
  \<^verbatim>\<open>Login\<close> with the user's domain, name and password succeeds, and \<^verbatim>\<open>ValidateToken\<close>
  accepts the token it returns at every instant from the token's \<^verbatim>\<open>nbf\<close> until its expiry;
  the claims returned carry the user's id, domain id, username and role id.
\<close>

theorem login_token_validates:
  assumes "schema_ok (repos s)" and "roles_written (repos s)"
    and "user \<in> set (users (repos s))"
    and "User.PasswordHash user = hashPassword password"
    and "Truncate now3 Second \<le> now" and "now < Truncate (now1 + tokenExpiry s) Second"
  shows "\<exists>response claims.
           Login s now1 now2 now3 (User.DomainID user) (User.Username user) password
             = Inr response \<and>
           ValidateToken s now (AccessToken response) = Inr claims \<and>
           UserID claims = User.ID user \<and>
           TokenClaims.DomainID claims = User.DomainID user \<and>
           TokenClaims.Username claims = User.Username user \<and>
           RoleID claims = User.RoleID user"
proof -
  from assms(1) have keys: "keys_ok (repos s)"
    by (simp add: schema_ok_def)
  from generateToken_validates [OF assms(5,6)] obtain token claims
    where token: "generateToken s now1 now2 now3 user = Inr token"
      and claims: "ValidateToken s now token = Inr claims" "UserID claims = User.ID user"
        "TokenClaims.DomainID claims = User.DomainID user"
        "TokenClaims.Username claims = User.Username user" "RoleID claims = User.RoleID user"
    by blast
  from buildUserProfile_stored [OF assms(1-3)] obtain profile
    where profile: "buildUserProfile s user = Inr profile"
    by blast
  have "Login s now1 now2 now3 (User.DomainID user) (User.Username user) password
          = Inr \<lparr> AccessToken = token, User = profile \<rparr>"
    by (simp add: Login_def GetByUsername_stored [OF keys assms(3)] assms(4) verifyPassword_eq
        token profile)
  with claims show ?thesis
    by simp
qed

text \<open>C1 in the scenario: \<open>alice\<close> logs in at \<open>noon\<close>; her token is validated 23 hours later.\<close>

theorem login_token_validates_witness:
  "\<exists>response claims.
     Login service noon noon noon (Domain.DomainID acme) ''alice'' ''s3cret!'' = Inr response \<and>
     ValidateToken service (noon + 23 * Hour) (AccessToken response) = Inr claims \<and>
     UserID claims = User.ID alice \<and>
     TokenClaims.DomainID claims = Domain.DomainID acme \<and>
     TokenClaims.Username claims = ''alice'' \<and>
     RoleID claims = row_id admin"
proof -
  have "schema_ok (repos service)" "roles_written (repos service)"
    "alice \<in> set (users (repos service))"
    "User.PasswordHash alice = hashPassword ''s3cret!''"
    by (simp_all add: service_simps scenario_schema scenario_written alice_stored alice_password)
  moreover have "Truncate noon Second \<le> noon + 23 * Hour"
    "noon + 23 * Hour < Truncate (noon + tokenExpiry service) Second"
    by (simp_all add: service_simps Truncate_def Second_def Hour_def noon_def)
  ultimately show ?thesis
    using login_token_validates [of service alice "''s3cret!''" noon "noon + 23 * Hour" noon noon]
    by (simp add: alice_def acme_def admin_def)
qed

section \<open>ValidateToken\<close>

lemma alice_token: "generateToken service noon noon noon alice = Inr (Compact alice_parts)"
  by (simp add: generateToken_def SignedString_def NewWithClaims_def SigningMethodHS256_def
      Let_def NewNumericDate_def service_simps alice_parts_def alice_claims_def
      Truncate_def Second_def Hour_def noon_def alice_def)

lemma hmac_zero_padded_key:
  assumes "length key < B"
  shows "hmac H B (key @ [0]) m = hmac H B key m"
proof -
  have "replicate (B - length key) x = x # replicate (B - Suc (length key)) x" for x :: byte
    using assms by (simp add: Suc_diff_Suc flip: replicate_Suc)
  with assms show ?thesis
    by (simp add: hmac_def Let_def)
qed

lemma hmac_Sign_SHA256_length: "length (hmac_Sign crypto_SHA256 signingString key) = 32"
  by (simp add: hmac_def Let_def Sum256_length)

lemma ValidateToken_Inl_or_Inr:
  "(\<exists>err. ValidateToken s now tokenString = Inl err) \<longleftrightarrow>
   (\<forall>claims. ValidateToken s now tokenString \<noteq> Inr claims)"
  by (cases "ValidateToken s now tokenString") simp_all

lemma hmac_Sign_SHA256_nonempty: "[] \<noteq> hmac_Sign crypto_SHA256 signingString key"
  using hmac_Sign_SHA256_length [of signingString key] by (metis length_0_conv zero_neq_numeral)

lemma GetSigningMethod_HS: "GetSigningMethod ''HS256'' = Some (SigningMethodHMAC crypto_SHA256)"
  "GetSigningMethod ''HS384'' = Some (SigningMethodHMAC crypto_SHA384)"
  "GetSigningMethod ''none'' = Some signingMethodNone"
  by (simp_all add: GetSigningMethod_def signingMethods_def)

lemma alice_parts_simps:
  "map_of (seg_header alice_parts) ''alg'' = Some (JString ''HS256'')"
  "seg_claims alice_parts = alice_claims"
  "seg_signature alice_parts =
     Inr (hmac_Sign crypto_SHA256 (seg_signing alice_parts) (jwtSecret service))"
  by (simp_all add: alice_parts_def Let_def service_simps del: hmac_Sign.simps)

lemma alice_claims_dates:
  "ExpiresAt (RegisteredClaims alice_claims) = Some (1750086400 * Second)"
  "NotBefore (RegisteredClaims alice_claims) = Some (1750000000 * Second)"
  by (simp_all add: alice_claims_def)

text \<open>
  C2, as amended. \<^verbatim>\<open>ValidateToken\<close> returns the claims of a token string exactly when the
  string has three segments, its header names one of the HMAC methods (HS256, HS384, HS512),
  its signature is the MAC of the first two segments under the server's secret with that
  method, its expiry (if any) has not passed and its \<^verbatim>\<open>nbf\<close> (if any) has been reached. A
  token whose \<^verbatim>\<open>alg\<close> is any other string, \<^verbatim>\<open>none\<close> included, is rejected; so is a token
  whose signature is not the MAC under the server's secret for any of the three methods.
\<close>

theorem validate_token_iff:
  "(ValidateToken s now tokenString = Inr claims \<longleftrightarrow>
      (\<exists>parts h sig.
         tokenString = Compact parts \<and>
         map_of (seg_header parts) ''alg'' = Some (JString (Alg (SigningMethodHMAC h))) \<and>
         seg_signature parts = Inr sig \<and>
         sig = hmac_Sign h (seg_signing parts) (jwtSecret s) \<and>
         (\<forall>exp. ExpiresAt (RegisteredClaims (seg_claims parts)) = Some exp \<longrightarrow> now < exp) \<and>
         (\<forall>nbf. NotBefore (RegisteredClaims (seg_claims parts)) = Some nbf \<longrightarrow> nbf \<le> now) \<and>
         claims = seg_claims parts))
   \<and> (\<forall>parts alg.
         tokenString = Compact parts \<and>
         map_of (seg_header parts) ''alg'' = Some (JString alg) \<and>
         alg \<notin> {''HS256'', ''HS384'', ''HS512''} \<longrightarrow>
         (\<exists>err. ValidateToken s now tokenString = Inl err))
   \<and> (\<forall>parts sig.
         tokenString = Compact parts \<and> seg_signature parts = Inr sig \<and>
         (\<forall>h. sig \<noteq> hmac_Sign h (seg_signing parts) (jwtSecret s)) \<longrightarrow>
         (\<exists>err. ValidateToken s now tokenString = Inl err))"
proof (intro conjI allI impI)
  show "ValidateToken s now tokenString = Inr claims \<longleftrightarrow>
      (\<exists>parts h sig.
         tokenString = Compact parts \<and>
         map_of (seg_header parts) ''alg'' = Some (JString (Alg (SigningMethodHMAC h))) \<and>
         seg_signature parts = Inr sig \<and>
         sig = hmac_Sign h (seg_signing parts) (jwtSecret s) \<and>
         (\<forall>exp. ExpiresAt (RegisteredClaims (seg_claims parts)) = Some exp \<longrightarrow> now < exp) \<and>
         (\<forall>nbf. NotBefore (RegisteredClaims (seg_claims parts)) = Some nbf \<longrightarrow> nbf \<le> now) \<and>
         claims = seg_claims parts)"
    unfolding ValidateToken_Inr_iff Validate_None_iff by (simp only: conj_assoc)
next
  fix parts alg
  assume *: "tokenString = Compact parts \<and>
         map_of (seg_header parts) ''alg'' = Some (JString alg) \<and>
         alg \<notin> {''HS256'', ''HS384'', ''HS512''}"
  have "Alg (SigningMethodHMAC h) \<in> {''HS256'', ''HS384'', ''HS512''}" for h
    by (cases h) simp_all
  with * have "ValidateToken s now tokenString \<noteq> Inr c" for c
    unfolding ValidateToken_Inr_iff by (auto simp del: Alg.simps)
  then show "\<exists>err. ValidateToken s now tokenString = Inl err"
    by (simp add: ValidateToken_Inl_or_Inr)
next
  fix parts sig
  assume *: "tokenString = Compact parts \<and> seg_signature parts = Inr sig \<and>
         (\<forall>h. sig \<noteq> hmac_Sign h (seg_signing parts) (jwtSecret s))"
  then have "ValidateToken s now tokenString \<noteq> Inr c" for c
    unfolding ValidateToken_Inr_iff by (auto simp del: Alg.simps)
  then show "\<exists>err. ValidateToken s now tokenString = Inl err"
    by (simp add: ValidateToken_Inl_or_Inr)
qed

text \<open>
  C2 in the scenario: \<open>alice\<close>'s token is accepted an hour after \<open>noon\<close>; the same token
  with \<^verbatim>\<open>alg\<close> set to \<^verbatim>\<open>none\<close> in its header and an empty signature is rejected.
\<close>

theorem validate_token_iff_witness:
  "ValidateToken service (noon + Hour) (Compact alice_parts) = Inr alice_claims
   \<and> (\<exists>err. ValidateToken service (noon + Hour)
               (Compact (alice_parts\<lparr>seg_header := [(''alg'', JString ''none''), (''typ'', JString ''JWT'')],
                                     seg_signature := Inr []\<rparr>)) = Inl err)"
proof
  have "\<exists>parts h sig.
         Compact alice_parts = Compact parts \<and>
         map_of (seg_header parts) ''alg'' = Some (JString (Alg (SigningMethodHMAC h))) \<and>
         seg_signature parts = Inr sig \<and>
         sig = hmac_Sign h (seg_signing parts) (jwtSecret service) \<and>
         (\<forall>exp. ExpiresAt (RegisteredClaims (seg_claims parts)) = Some exp \<longrightarrow> noon + Hour < exp) \<and>
         (\<forall>nbf. NotBefore (RegisteredClaims (seg_claims parts)) = Some nbf \<longrightarrow> nbf \<le> noon + Hour) \<and>
         alice_claims = seg_claims parts"
    by (intro exI [of _ alice_parts] exI [of _ crypto_SHA256] exI)
      (simp add: alice_parts_simps alice_claims_dates noon_def Hour_def Second_def
        del: hmac_Sign.simps)
  then show "ValidateToken service (noon + Hour) (Compact alice_parts) = Inr alice_claims"
    using validate_token_iff [of service "noon + Hour" "Compact alice_parts" alice_claims]
    by blast
next
  let ?t = "Compact (alice_parts\<lparr>seg_header := [(''alg'', JString ''none''), (''typ'', JString ''JWT'')],
                                     seg_signature := Inr []\<rparr>)"
  show "\<exists>err. ValidateToken service (noon + Hour) ?t = Inl err"
    using validate_token_iff [of service "noon + Hour" ?t alice_claims]
    by simp
qed

text \<open>
  C2 as stated fails. Five seconds before \<open>noon\<close> the signature of \<open>alice\<close>'s token verifies
  against the server's secret and its expiry has not passed, yet the token is rejected: it
  is not valid yet. A token for the same claims that asserts HS384, not the HS256 the service
  signs with, is accepted when its MAC is computed with the server's secret. And a token
  signed with a different secret, the server's followed by a zero byte, is accepted: HMAC pads
  a short key with zero bytes.
\<close>

theorem validate_token_counterexample:
  "Verify SigningMethodHS256 (seg_signing alice_parts)
      (hmac_Sign crypto_SHA256 (seg_signing alice_parts) (jwtSecret service)) (jwtSecret service)
     = None
   \<and> seg_signature alice_parts
       = Inr (hmac_Sign crypto_SHA256 (seg_signing alice_parts) (jwtSecret service))
   \<and> ExpiresAt (RegisteredClaims (seg_claims alice_parts)) = Some (1750086400 * Second)
   \<and> noon - 5 * Second < 1750086400 * Second
   \<and> ValidateToken service (noon - 5 * Second) (Compact alice_parts)
       = Inl (Errorf_w ''invalid token: ''
               (newError [] ErrTokenInvalidClaims [joinedError [ErrTokenNotValidYet]]))
   \<and> (case SignedString (NewWithClaims (SigningMethodHMAC crypto_SHA384) alice_claims)
              (jwtSecret service) of
         Inl err \<Rightarrow> False
       | Inr token \<Rightarrow> ValidateToken service (noon + Hour) token = Inr alice_claims)
   \<and> bytes ''your-secret-key'' @ [0] \<noteq> jwtSecret service
   \<and> (case SignedString (NewWithClaims SigningMethodHS256 alice_claims)
              (bytes ''your-secret-key'' @ [0]) of
         Inl err \<Rightarrow> False
       | Inr token \<Rightarrow> ValidateToken service (noon + Hour) token = Inr alice_claims)"
proof (intro conjI)
  show "Verify SigningMethodHS256 (seg_signing alice_parts)
      (hmac_Sign crypto_SHA256 (seg_signing alice_parts) (jwtSecret service)) (jwtSecret service)
     = None"
    by (simp add: SigningMethodHS256_def)
  show "seg_signature alice_parts
       = Inr (hmac_Sign crypto_SHA256 (seg_signing alice_parts) (jwtSecret service))"
    by (rule alice_parts_simps)
  show "ExpiresAt (RegisteredClaims (seg_claims alice_parts)) = Some (1750086400 * Second)"
    by (simp add: alice_parts_simps alice_claims_dates)
  show "noon - 5 * Second < 1750086400 * Second"
    by (simp add: noon_def Second_def)
  show "ValidateToken service (noon - 5 * Second) (Compact alice_parts)
       = Inl (Errorf_w ''invalid token: ''
               (newError [] ErrTokenInvalidClaims [joinedError [ErrTokenNotValidYet]]))"
    by (simp add: ValidateToken_def ParseWithClaims_def ParseUnverified_def keyFunc_def
        alice_parts_simps GetSigningMethod_HS Validate_def alice_claims_dates Let_def
        noon_def Second_def del: hmac_Sign.simps)
  have window: "Validate (noon + Hour) alice_claims = None"
    by (simp add: Validate_def alice_claims_dates Let_def noon_def Second_def Hour_def)
  show "case SignedString (NewWithClaims (SigningMethodHMAC crypto_SHA384) alice_claims)
              (jwtSecret service) of
         Inl err \<Rightarrow> False
       | Inr token \<Rightarrow> ValidateToken service (noon + Hour) token = Inr alice_claims"
    by (simp add: SignedString_def NewWithClaims_def ValidateToken_def ParseWithClaims_def
        ParseUnverified_def keyFunc_def GetSigningMethod_HS window del: hmac_Sign.simps)
  show "bytes ''your-secret-key'' @ [0] \<noteq> jwtSecret service"
    by (simp add: service_simps)
  have "length (bytes ''your-secret-key'') < 64"
    by (simp add: bytes_def)
  then have "hmac_Sign crypto_SHA256 m (bytes ''your-secret-key'' @ [0])
          = hmac_Sign crypto_SHA256 m (jwtSecret service)" for m
    by (simp only: service_simps hmac_Sign.simps hmac_zero_padded_key)
  then show "case SignedString (NewWithClaims SigningMethodHS256 alice_claims)
              (bytes ''your-secret-key'' @ [0]) of
         Inl err \<Rightarrow> False
       | Inr token \<Rightarrow> ValidateToken service (noon + Hour) token = Inr alice_claims"
    by (simp add: SignedString_def NewWithClaims_def SigningMethodHS256_def ValidateToken_def
        ParseWithClaims_def ParseUnverified_def keyFunc_def GetSigningMethod_HS window
        del: hmac_Sign.simps)
qed

lemma TrimPrefix_append: "TrimPrefix (p @ s) p = s"
proof -
  have "has_prefix (p @ s) p"
    by (induction p) simp_all
  then show ?thesis
    by (simp add: TrimPrefix_def)
qed

lemma ValidateToken_message:
  assumes "ValidateToken s now tokenString = Inl err"
  shows "has_prefix (Error err) ''invalid token''"
  using assms
  by (auto simp: ValidateToken_def Errorf_w_def split: sum.splits if_splits)

text \<open>
  C6 as stated fails. \<^verbatim>\<open>ValidateToken\<close> wraps the library's error with \<^verbatim>\<open>%w\<close>: at the same
  instant, a day and an hour after \<open>noon\<close>, it answers \<open>alice\<close>'s expired token and the same
  token with a forged (empty) signature with two different error values, whose messages and
  whose wrapped causes (\<^verbatim>\<open>jwt.ErrTokenExpired\<close>, \<^verbatim>\<open>jwt.ErrTokenSignatureInvalid\<close>) tell the
  two apart.
\<close>

theorem validate_errors_differ:
  "ValidateToken service (noon + 25 * Hour) (Compact alice_parts)
     = Inl (wrapError ''invalid token: token has invalid claims: token is expired''
             (wrapErrors ''token has invalid claims: token is expired''
               [ErrTokenInvalidClaims, joinedError [ErrTokenExpired]]))
   \<and> ValidateToken service (noon + 25 * Hour) (Compact (alice_parts\<lparr>seg_signature := Inr []\<rparr>))
     = Inl (wrapError ''invalid token: token signature is invalid: signature is invalid''
             (wrapErrors ''token signature is invalid: signature is invalid''
               [ErrTokenSignatureInvalid, ErrSignatureInvalid]))
   \<and> ValidateToken service (noon + 25 * Hour) (Compact alice_parts)
     \<noteq> ValidateToken service (noon + 25 * Hour) (Compact (alice_parts\<lparr>seg_signature := Inr []\<rparr>))"
proof -
  have expired: "ValidateToken service (noon + 25 * Hour) (Compact alice_parts)
     = Inl (wrapError ''invalid token: token has invalid claims: token is expired''
             (wrapErrors ''token has invalid claims: token is expired''
               [ErrTokenInvalidClaims, joinedError [ErrTokenExpired]]))"
    by (simp add: ValidateToken_def ParseWithClaims_def ParseUnverified_def keyFunc_def
        alice_parts_simps GetSigningMethod_HS Validate_def alice_claims_dates Let_def
        noon_def Second_def Hour_def Errorf_w_def newError_def ErrTokenInvalidClaims_def
        ErrTokenExpired_def del: hmac_Sign.simps)
  have forged: "ValidateToken service (noon + 25 * Hour)
        (Compact (alice_parts\<lparr>seg_signature := Inr []\<rparr>))
     = Inl (wrapError ''invalid token: token signature is invalid: signature is invalid''
             (wrapErrors ''token signature is invalid: signature is invalid''
               [ErrTokenSignatureInvalid, ErrSignatureInvalid]))"
    by (simp add: ValidateToken_def ParseWithClaims_def ParseUnverified_def keyFunc_def
        alice_parts_simps GetSigningMethod_HS hmac_Sign_SHA256_nonempty
        Errorf_w_def newError_def ErrTokenSignatureInvalid_def ErrSignatureInvalid_def
        del: hmac_Sign.simps)
  show ?thesis
    unfolding expired forged by simp
qed

text \<open>
  C6, as amended. Whenever \<^verbatim>\<open>ValidateToken\<close> fails on the bearer token,
  \<^verbatim>\<open>AuthHandler.ValidateToken\<close> answers 401 with the one message
  \<^verbatim>\<open>Invalid or expired token\<close>, whatever the cause; and the message of the service's error
  starts with \<^verbatim>\<open>invalid token\<close>.
\<close>

theorem validate_failures_one_response:
  assumes "ValidateToken s now (read tokenString) = Inl err"
  shows "AuthHandler_ValidateToken read s now (''Bearer '' @ tokenString)
           = (401, H_error ''Invalid or expired token'')
         \<and> has_prefix (Error err) ''invalid token''"
proof
  have "TrimPrefix (''Bearer '' @ tokenString) ''Bearer '' = tokenString"
    by (rule TrimPrefix_append)
  moreover have "tokenString \<noteq> ''Bearer '' @ tokenString"
    by (metis append_self_conv2 list.distinct(1))
  ultimately show "AuthHandler_ValidateToken read s now (''Bearer '' @ tokenString)
           = (401, H_error ''Invalid or expired token'')"
    using assms by (simp add: AuthHandler_ValidateToken_def Let_def del: append.simps)
  show "has_prefix (Error err) ''invalid token''"
    using assms by (rule ValidateToken_message)
qed

text \<open>
  C6 in the scenario: the handler's answers to \<open>alice\<close>'s token once expired and to a string
  that is no token are the same; her token in its time is answered with her claims.
\<close>

theorem validate_failures_one_response_witness:
  "AuthHandler_ValidateToken read_bearer service (noon + 25 * Hour)
       (''Bearer '' @ token_text alice_parts)
     = (401, H_error ''Invalid or expired token'')
   \<and> AuthHandler_ValidateToken read_bearer service (noon + 25 * Hour)
       (''Bearer '' @ ''forged'')
     = (401, H_error ''Invalid or expired token'')
   \<and> AuthHandler_ValidateToken read_bearer service (noon + Hour)
       (''Bearer '' @ token_text alice_parts)
     = (200, H_valid_claims True alice_claims)"
proof (intro conjI)
  have "ValidateToken service (noon + 25 * Hour) (read_bearer (token_text alice_parts))
     = Inl (Errorf_w ''invalid token: ''
             (newError [] ErrTokenInvalidClaims [joinedError [ErrTokenExpired]]))"
    by (simp add: read_bearer_def ValidateToken_def ParseWithClaims_def ParseUnverified_def
        keyFunc_def alice_parts_simps GetSigningMethod_HS Validate_def alice_claims_dates
        Let_def noon_def Second_def Hour_def del: hmac_Sign.simps)
  then show "AuthHandler_ValidateToken read_bearer service (noon + 25 * Hour)
       (''Bearer '' @ token_text alice_parts)
     = (401, H_error ''Invalid or expired token'')"
    using validate_failures_one_response by blast
  have "CHR ''.'' \<in> set (token_text alice_parts)"
    by (simp add: token_text_def)
  then have "token_text alice_parts \<noteq> ''forged''"
    by auto
  then have "ValidateToken service (noon + 25 * Hour) (read_bearer ''forged'')
     = Inl (Errorf_w ''invalid token: ''
             (newError ''token contains an invalid number of segments'' ErrTokenMalformed []))"
    by (simp add: read_bearer_def ValidateToken_def ParseWithClaims_def ParseUnverified_def)
  then show "AuthHandler_ValidateToken read_bearer service (noon + 25 * Hour)
       (''Bearer '' @ ''forged'')
     = (401, H_error ''Invalid or expired token'')"
    using validate_failures_one_response by blast
  have "ValidateToken service (noon + Hour) (read_bearer (token_text alice_parts))
     = Inr alice_claims"
    by (simp add: read_bearer_def ValidateToken_def ParseWithClaims_def ParseUnverified_def
        keyFunc_def alice_parts_simps GetSigningMethod_HS Validate_def alice_claims_dates
        Let_def noon_def Second_def Hour_def del: hmac_Sign.simps)
  moreover have "TrimPrefix (''Bearer '' @ token_text alice_parts) ''Bearer ''
                   = token_text alice_parts"
    by (rule TrimPrefix_append)
  moreover have "token_text alice_parts \<noteq> ''Bearer '' @ token_text alice_parts"
    by (metis append_self_conv2 list.distinct(1))
  ultimately show "AuthHandler_ValidateToken read_bearer service (noon + Hour)
       (''Bearer '' @ token_text alice_parts)
     = (200, H_valid_claims True alice_claims)"
    by (simp add: AuthHandler_ValidateToken_def Let_def del: append.simps)
qed

end
